theory Spec2Isabelle
  imports Complex_Main
begin

section \<open>ECMAScript numbers\<close>

text \<open>
  The server is JavaScript: every number of the program is an IEEE-754 binary64 value.
  A finite value is modelled by the rational number it denotes, and every arithmetic
  operation rounds its exact result to the nearest binary64 value, ties to even
  (\<open>rnd\<close>), as the language does. Negative zero is identified with zero: the program
  only adds, subtracts, compares and formats numbers, and divides by a row count or by
  a sum that starts from \<open>+0\<close>, so the sign of a zero is never observed.
\<close>

datatype number = NaN | NegInf | Fin rat | PosInf

text \<open>Number of binary digits of a positive integer.\<close>

function blen :: "int \<Rightarrow> nat" where
  "blen n = (if n \<le> 0 then 0 else Suc (blen (n div 2)))"
  by pat_completeness auto
termination
  by (relation "measure nat") auto

declare blen.simps [simp del]

text \<open>\<open>ilog2 x\<close> is the binary exponent of a positive rational: \<open>2^e \<le> x < 2^(e+1)\<close>.\<close>

definition ilog2 :: "rat \<Rightarrow> int" where
  "ilog2 x = (let (p, q) = quotient_of x;
                  k = int (blen p) - int (blen q)
              in if 2 powi k \<le> x then k else k - 1)"

text \<open>Round to the nearest integer, ties to even.\<close>

definition rne :: "rat \<Rightarrow> int" where
  "rne q = (let f = \<lfloor>q\<rfloor>; d = q - of_int f
            in if d < 1 / 2 then f else if 1 / 2 < d then f + 1
               else if even f then f else f + 1)"

text \<open>
  Rounding of a positive rational to 53 significant bits; below \<open>2^-1022\<close> the spacing
  stays \<open>2^-1074\<close> (subnormal numbers).
\<close>

definition rnd_pos :: "rat \<Rightarrow> rat" where
  "rnd_pos x = (let e = max (ilog2 x) (- 1022); u = 2 powi (e - 52)
                in of_int (rne (x / u)) * u)"

definition rnd :: "rat \<Rightarrow> number" where
  "rnd x = (if x = 0 then Fin 0
            else let r = rnd_pos \<bar>x\<bar>
                 in if r \<noteq> 0 \<and> 1024 \<le> ilog2 r then (if x < 0 then NegInf else PosInf)
                    else Fin (sgn x * r))"

fun js_neg :: "number \<Rightarrow> number" where
  "js_neg NaN = NaN"
| "js_neg NegInf = PosInf"
| "js_neg PosInf = NegInf"
| "js_neg (Fin a) = Fin (- a)"

fun js_add :: "number \<Rightarrow> number \<Rightarrow> number" where
  "js_add NaN _ = NaN"
| "js_add _ NaN = NaN"
| "js_add PosInf NegInf = NaN"
| "js_add NegInf PosInf = NaN"
| "js_add PosInf _ = PosInf"
| "js_add _ PosInf = PosInf"
| "js_add NegInf _ = NegInf"
| "js_add _ NegInf = NegInf"
| "js_add (Fin a) (Fin b) = rnd (a + b)"

definition js_sub :: "number \<Rightarrow> number \<Rightarrow> number" where
  "js_sub a b = js_add a (js_neg b)"

text \<open>The sign of a number that is not NaN: \<open>-1\<close>, \<open>0\<close> or \<open>1\<close>.\<close>

fun num_sgn :: "number \<Rightarrow> int" where
  "num_sgn NaN = 0"
| "num_sgn NegInf = - 1"
| "num_sgn PosInf = 1"
| "num_sgn (Fin a) = (if a < 0 then - 1 else if a = 0 then 0 else 1)"

definition inf_of_sign :: "int \<Rightarrow> number" where
  "inf_of_sign s = (if s < 0 then NegInf else PosInf)"

fun js_mul :: "number \<Rightarrow> number \<Rightarrow> number" where
  "js_mul NaN _ = NaN"
| "js_mul _ NaN = NaN"
| "js_mul (Fin a) (Fin b) = rnd (a * b)"
| "js_mul a b = (if num_sgn a = 0 \<or> num_sgn b = 0 then NaN
                 else inf_of_sign (num_sgn a * num_sgn b))"

text \<open>Division; a zero divisor is \<open>+0\<close> (see above).\<close>

fun js_div :: "number \<Rightarrow> number \<Rightarrow> number" where
  "js_div NaN _ = NaN"
| "js_div _ NaN = NaN"
| "js_div (Fin a) (Fin b) =
     (if b = 0 then (if a = 0 then NaN else inf_of_sign (num_sgn (Fin a)))
      else rnd (a / b))"
| "js_div (Fin a) _ = Fin 0"
| "js_div a (Fin b) = inf_of_sign (num_sgn a * (if b < 0 then - 1 else 1))"
| "js_div _ _ = NaN"

fun js_abs :: "number \<Rightarrow> number" where
  "js_abs NaN = NaN"
| "js_abs NegInf = PosInf"
| "js_abs PosInf = PosInf"
| "js_abs (Fin a) = Fin \<bar>a\<bar>"

text \<open>The relational operators \<open><\<close> and \<open>></\<close>: false as soon as an operand is NaN.\<close>

fun js_lt :: "number \<Rightarrow> number \<Rightarrow> bool" where
  "js_lt NaN _ = False"
| "js_lt _ NaN = False"
| "js_lt PosInf _ = False"
| "js_lt _ NegInf = False"
| "js_lt NegInf _ = True"
| "js_lt _ PosInf = True"
| "js_lt (Fin a) (Fin b) = (a < b)"

definition js_gt :: "number \<Rightarrow> number \<Rightarrow> bool" where
  "js_gt a b = js_lt b a"

text \<open>Truthiness of a number: every number but \<open>0\<close> and NaN.\<close>

definition num_truthy :: "number \<Rightarrow> bool" where
  "num_truthy n = (n \<noteq> NaN \<and> n \<noteq> Fin 0)"

text \<open>The order of the numbers that are not NaN, and two notions used in proofs about \<open>rnd\<close>.\<close>

fun num_le :: "number \<Rightarrow> number \<Rightarrow> bool" where
  "num_le NaN _ = False"
| "num_le _ NaN = False"
| "num_le NegInf _ = True"
| "num_le _ PosInf = True"
| "num_le PosInf _ = False"
| "num_le _ NegInf = False"
| "num_le (Fin a) (Fin b) = (a \<le> b)"

definition expo :: "rat \<Rightarrow> int" where
  "expo x = max (ilog2 x) (- 1022)"

definition overflows :: "rat \<Rightarrow> bool" where
  "overflows r = (r \<noteq> 0 \<and> 1024 \<le> ilog2 r)"

section \<open>Decimal text\<close>

definition is_digit :: "char \<Rightarrow> bool" where
  "is_digit c = (c \<in> set ''0123456789'')"

definition digit_val :: "char \<Rightarrow> int" where
  "digit_val c = of_char c - 48"

definition dec_val :: "string \<Rightarrow> int" where
  "dec_val s = foldl (\<lambda>a c. 10 * a + digit_val c) 0 s"

definition digit_char :: "int \<Rightarrow> char" where
  "digit_char d = char_of (48 + d)"

text \<open>The decimal digits of a non-negative integer.\<close>

function show_dec :: "int \<Rightarrow> string" where
  "show_dec n = (if n < 10 then [digit_char n] else show_dec (n div 10) @ [digit_char (n mod 10)])"
  by pat_completeness auto
termination
  by (relation "measure nat") auto

declare show_dec.simps [simp del]

text \<open>A row number or a count, as JavaScript prints it in a template string.\<close>

definition show_nat :: "nat \<Rightarrow> string" where
  "show_nat n = show_dec (int n)"

text \<open>
  The longest prefix of a string that is an unsigned decimal literal of the language
  (\<open>digits\<close>, \<open>digits.digits\<close>, \<open>.digits\<close>, each with an optional exponent part), with
  its exact value and the rest of the string.
\<close>

definition scan_exponent :: "rat \<Rightarrow> string \<Rightarrow> rat \<times> string" where
  "scan_exponent m s =
     (case s of
        [] \<Rightarrow> (m, s)
      | c # t \<Rightarrow>
          if c = CHR ''e'' \<or> c = CHR ''E'' then
            (let neg = (case t of [] \<Rightarrow> False | d # _ \<Rightarrow> d = CHR ''-'');
                 u = (case t of [] \<Rightarrow> t | d # v \<Rightarrow> if d = CHR ''+'' \<or> d = CHR ''-'' then v else t);
                 ds = takeWhile is_digit u
             in if ds = [] then (m, s)
                else (m * 10 powi (if neg then - dec_val ds else dec_val ds),
                      dropWhile is_digit u))
          else (m, s))"

definition scan_decimal :: "string \<Rightarrow> (rat \<times> string) option" where
  "scan_decimal s =
     (let ip = takeWhile is_digit s; r1 = dropWhile is_digit s
      in case r1 of
           [] \<Rightarrow> if ip = [] then None else Some (of_int (dec_val ip), [])
         | c # t \<Rightarrow>
             if c = CHR ''.'' then
               (let fp = takeWhile is_digit t
                in if ip = [] \<and> fp = [] then None
                   else Some (scan_exponent (of_int (dec_val (ip @ fp)) / 10 ^ length fp)
                                (dropWhile is_digit t)))
             else if ip = [] then None
             else Some (scan_exponent (of_int (dec_val ip)) r1))"

definition is_ws :: "char \<Rightarrow> bool" where
  "is_ws c = (of_char c \<in> {9, 10, 11, 12, 13, 32 :: nat})"

definition strip_sign :: "string \<Rightarrow> bool \<times> string" where
  "strip_sign s =
     (case s of
        [] \<Rightarrow> (False, s)
      | c # t \<Rightarrow> if c = CHR ''-'' then (True, t) else if c = CHR ''+'' then (False, t)
                 else (False, s))"

text \<open>
  The global function \<open>parseFloat\<close> on a string: leading white space is skipped, the
  longest prefix that is a signed decimal literal is read, and its value is rounded;
  NaN when there is no such prefix.
\<close>

definition parseFloat_str :: "string \<Rightarrow> number" where
  "parseFloat_str s =
     (let (neg, u) = strip_sign (dropWhile is_ws s)
      in if take 8 u = ''Infinity'' then (if neg then NegInf else PosInf)
         else case scan_decimal u of
                None \<Rightarrow> NaN
              | Some (v, _) \<Rightarrow> rnd (if neg then - v else v))"

text \<open>
  The conversion of a string to a number (\<open>StringToNumber\<close>), used by the arithmetic
  operators: white space is trimmed at both ends, the empty string is \<open>0\<close>, and the
  whole rest must be a numeric literal (decimal, or \<open>0x\<close>, \<open>0o\<close>, \<open>0b\<close> with digits of
  that base).
\<close>

definition radix_val :: "int \<Rightarrow> string \<Rightarrow> int option" where
  "radix_val b s =
     (let dv = (\<lambda>c. let n = of_char c :: int in
                  if 48 \<le> n \<and> n \<le> 57 then n - 48
                  else if 97 \<le> n \<and> n \<le> 102 then n - 87
                  else if 65 \<le> n \<and> n \<le> 70 then n - 55
                  else b)
      in if s \<noteq> [] \<and> list_all (\<lambda>c. dv c < b) s
         then Some (foldl (\<lambda>a c. b * a + dv c) 0 s) else None)"

definition radix_literal :: "string \<Rightarrow> int option" where
  "radix_literal s =
     (case s of
        c # x # ds \<Rightarrow>
          if c \<noteq> CHR ''0'' then None
          else if x = CHR ''x'' \<or> x = CHR ''X'' then radix_val 16 ds
          else if x = CHR ''o'' \<or> x = CHR ''O'' then radix_val 8 ds
          else if x = CHR ''b'' \<or> x = CHR ''B'' then radix_val 2 ds
          else None
      | _ \<Rightarrow> None)"

definition stringToNumber :: "string \<Rightarrow> number" where
  "stringToNumber s =
     (let t = rev (dropWhile is_ws (rev (dropWhile is_ws s)))
      in if t = [] then Fin 0
         else case radix_literal t of
                Some n \<Rightarrow> rnd (of_int n)
              | None \<Rightarrow>
                  (let (neg, u) = strip_sign t
                   in if u = ''Infinity'' then (if neg then NegInf else PosInf)
                      else case scan_decimal u of
                             Some (v, []) \<Rightarrow> rnd (if neg then - v else v)
                           | _ \<Rightarrow> NaN))"

text \<open>
  The conversion of a number to a string (\<open>Number::toString\<close>): the shortest decimal
  digit string \<open>s\<close> of length \<open>k\<close> with \<open>s * 10^(n-k)\<close> rounding to the number, the
  nearest to it when several digit strings of that length do, printed in positional
  notation for \<open>-6 < n \<le> 21\<close> and with an exponent otherwise.
\<close>

function dlen :: "int \<Rightarrow> nat" where
  "dlen n = (if n \<le> 0 then 0 else Suc (dlen (n div 10)))"
  by pat_completeness auto
termination
  by (relation "measure nat") auto

declare dlen.simps [simp del]

definition ilog10 :: "rat \<Rightarrow> int" where
  "ilog10 x = (let (p, q) = quotient_of x;
                   k = int (dlen p) - int (dlen q)
               in if 10 powi k \<le> x then k else k - 1)"

text \<open>
  The digit strings of length \<open>k\<close> next to \<open>x\<close>, as pairs \<open>(s, n)\<close>, that round to \<open>x\<close>;
  the nearest first, the even one first when both are as near.
\<close>

definition digit_candidates :: "rat \<Rightarrow> nat \<Rightarrow> (int \<times> int) list" where
  "digit_candidates x k =
     (let n0 = ilog10 x + 1;
          sc = 10 powi (n0 - int k);
          f = \<lfloor>x / sc\<rfloor>;
          lo_first = (x - of_int f * sc < of_int (f + 1) * sc - x
                      \<or> (x - of_int f * sc = of_int (f + 1) * sc - x \<and> even f));
          cs = (if lo_first then [f, f + 1] else [f + 1, f])
      in map (\<lambda>s. if s = 10 ^ k then (10 ^ (k - 1), n0 + 1) else (s, n0))
           (filter (\<lambda>s. rnd (of_int s * sc) = Fin x) cs))"

text \<open>
  Seventeen digits always suffice for a binary64 value; the last equation is reached
  only for a rational that is not one.
\<close>

fun shortest_digits :: "rat \<Rightarrow> nat \<Rightarrow> nat \<Rightarrow> (int \<times> nat \<times> int)" where
  "shortest_digits x k 0 = (\<lfloor>x / 10 powi (ilog10 x + 1 - int k)\<rfloor>, k, ilog10 x + 1)"
| "shortest_digits x k (Suc fuel) =
     (case digit_candidates x k of
        (s, n) # _ \<Rightarrow> (s, k, n)
      | [] \<Rightarrow> shortest_digits x (Suc k) fuel)"

definition show_pos :: "rat \<Rightarrow> string" where
  "show_pos x =
     (let (s, k, n) = shortest_digits x 1 17;
          ds = show_dec s;
          ex = (\<lambda>e. (if e < 0 then ''e-'' else ''e+'') @ show_dec \<bar>e\<bar>)
      in if int k \<le> n \<and> n \<le> 21 then ds @ replicate (nat (n - int k)) CHR ''0''
         else if 0 < n \<and> n \<le> 21 then take (nat n) ds @ ''.'' @ drop (nat n) ds
         else if - 6 < n \<and> n \<le> 0 then ''0.'' @ replicate (nat (- n)) CHR ''0'' @ ds
         else if k = 1 then ds @ ex (n - 1)
         else take 1 ds @ ''.'' @ drop 1 ds @ ex (n - 1))"

fun numToString :: "number \<Rightarrow> string" where
  "numToString NaN = ''NaN''"
| "numToString PosInf = ''Infinity''"
| "numToString NegInf = ''-Infinity''"
| "numToString (Fin a) =
     (if a = 0 then ''0'' else if a < 0 then ''-'' @ show_pos (- a) else show_pos a)"

text \<open>
  \<open>Number.prototype.toFixed\<close>: the integer \<open>n\<close> nearest to \<open>x * 10^f\<close> (the larger one
  when two are as near), printed with \<open>f\<close> digits after the point; a number that is
  not finite, or not below \<open>10^21\<close>, is printed as \<open>numToString\<close> does.
\<close>

definition fixed_pos :: "rat \<Rightarrow> nat \<Rightarrow> string" where
  "fixed_pos x f =
     (if 10 ^ 21 \<le> x then show_pos x
      else let m = show_dec \<lfloor>x * 10 ^ f + 1 / 2\<rfloor>;
               m' = replicate (Suc f - length m) CHR ''0'' @ m
           in if f = 0 then m
              else take (length m' - f) m' @ ''.'' @ drop (length m' - f) m')"

fun toFixed :: "number \<Rightarrow> nat \<Rightarrow> string" where
  "toFixed (Fin a) f = (if a < 0 then ''-'' @ fixed_pos (- a) f else fixed_pos a f)"
| "toFixed x f = numToString x"

section \<open>Values, records and exceptions\<close>

text \<open>
  A spreadsheet cell is a primitive value. A raw record is the object that the upload
  handler builds for one data row: its properties, the header names with the cells, in
  insertion order; a property that is not there reads as \<open>undefined\<close>.
\<close>

datatype jsval = JUndef | JNull | JBool bool | JNum number | JStr string

datatype js_error = TypeError string

type_synonym rawRecord = "(string \<times> jsval) list"

definition getp :: "rawRecord \<Rightarrow> string \<Rightarrow> jsval" where
  "getp row k = (case map_of row k of None \<Rightarrow> JUndef | Some v \<Rightarrow> v)"

text \<open>\<open>obj[k] = v\<close>: a new property goes to the end of the object.\<close>

definition obj_put :: "rawRecord \<Rightarrow> string \<Rightarrow> jsval \<Rightarrow> rawRecord" where
  "obj_put obj k v =
     (if k \<in> set (map fst obj) then map (\<lambda>p. if fst p = k then (k, v) else p) obj
      else obj @ [(k, v)])"

fun truthy :: "jsval \<Rightarrow> bool" where
  "truthy JUndef = False"
| "truthy JNull = False"
| "truthy (JBool b) = b"
| "truthy (JNum n) = num_truthy n"
| "truthy (JStr s) = (s \<noteq> [])"

text \<open>The operator \<open>||\<close>: the left operand when it is truthy, the right one otherwise.\<close>

definition js_or :: "jsval \<Rightarrow> jsval \<Rightarrow> jsval" where
  "js_or a b = (if truthy a then a else b)"

fun to_number :: "jsval \<Rightarrow> number" where
  "to_number JUndef = NaN"
| "to_number JNull = Fin 0"
| "to_number (JBool b) = (if b then Fin 1 else Fin 0)"
| "to_number (JNum n) = n"
| "to_number (JStr s) = stringToNumber s"

fun to_string :: "jsval \<Rightarrow> string" where
  "to_string JUndef = ''undefined''"
| "to_string JNull = ''null''"
| "to_string (JBool b) = (if b then ''true'' else ''false'')"
| "to_string (JNum n) = numToString n"
| "to_string (JStr s) = s"

fun is_string :: "jsval \<Rightarrow> bool" where
  "is_string (JStr s) = True"
| "is_string _ = False"

fun is_number :: "jsval \<Rightarrow> bool" where
  "is_number (JNum n) = True"
| "is_number _ = False"

text \<open>The operator \<open>+\<close>: concatenation as soon as an operand is a string.\<close>

definition js_plus :: "jsval \<Rightarrow> jsval \<Rightarrow> jsval" where
  "js_plus a b = (if is_string a \<or> is_string b then JStr (to_string a @ to_string b)
                  else JNum (js_add (to_number a) (to_number b)))"

text \<open>
  The global function \<open>parseFloat\<close> prints its argument and reads the text back. A
  number prints as digits that read back as the same number; \<open>undefined\<close>, \<open>null\<close>,
  \<open>true\<close> and \<open>false\<close> print as words that start no literal.
\<close>

fun parseFloat :: "jsval \<Rightarrow> number" where
  "parseFloat (JNum n) = n"
| "parseFloat (JStr s) = parseFloat_str s"
| "parseFloat _ = NaN"

text \<open>\<open>Array.prototype.reduce\<close> without an initial value; it throws on an empty array.\<close>

definition js_reduce :: "('a \<Rightarrow> 'a \<Rightarrow> 'a) \<Rightarrow> 'a list \<Rightarrow> js_error + 'a" where
  "js_reduce f xs =
     (case xs of
        [] \<Rightarrow> Inl (TypeError ''Reduce of empty array with no initial value'')
      | x # rest \<Rightarrow> Inr (foldl f x rest))"

text \<open>
  \<open>Array.prototype.map\<close> with a callback that receives the element and its index; an
  exception of the callback ends the loop.
\<close>

fun js_map :: "('a \<Rightarrow> nat \<Rightarrow> js_error + 'b) \<Rightarrow> 'a list \<Rightarrow> nat \<Rightarrow> js_error + 'b list" where
  "js_map f [] i = Inr []"
| "js_map f (x # xs) i =
     (case f x i of
        Inl e \<Rightarrow> Inl e
      | Inr y \<Rightarrow> (case js_map f xs (Suc i) of Inl e \<Rightarrow> Inl e | Inr ys \<Rightarrow> Inr (y # ys)))"

section \<open>The row transformer (\<open>processExcelData\<close>)\<close>

text \<open>
  A processed row. \<open>DEPTH\<close>, \<open>DT\<close> and \<open>GR\<close> are a number or \<open>null\<close> (\<open>None\<close>); the seven
  percentages are numbers.
\<close>

record processedRow =
  DEPTH :: "number option"
  SH :: number
  SS :: number
  LS :: number
  DOL :: number
  ANH :: number
  Coal :: number
  Salt :: number
  DT :: "number option"
  GR :: "number option"
  rowIndex :: nat
  dominantRockType :: string

text \<open>\<open>parseFloat(c) || null\<close> and \<open>parseFloat(c) || 0\<close>.\<close>

definition or_null :: "number \<Rightarrow> number option" where
  "or_null n = (if num_truthy n then Some n else None)"

definition or_zero :: "number \<Rightarrow> number" where
  "or_zero n = (if num_truthy n then n else Fin 0)"

text \<open>The object \<open>rockTypes\<close>, its keys in the order the literal lists them.\<close>

definition rockTypes :: "processedRow \<Rightarrow> (string \<times> number) list" where
  "rockTypes r =
     [(''Shale'', SH r), (''Sandstone'', SS r), (''Limestone'', LS r), (''Dolomite'', DOL r),
      (''Anhydrite'', ANH r), (''Coal'', Coal r), (''Salt'', Salt r)]"

text \<open>\<open>rockTypes[a]\<close>; a key that is not there reads \<open>undefined\<close>, NaN in a comparison.\<close>

definition rt_get :: "(string \<times> number) list \<Rightarrow> string \<Rightarrow> number" where
  "rt_get rt k = (case map_of rt k of Some v \<Rightarrow> v | None \<Rightarrow> NaN)"

definition pick_greater :: "(string \<times> number) list \<Rightarrow> string \<Rightarrow> string \<Rightarrow> string" where
  "pick_greater rt a b = (if js_gt (rt_get rt a) (rt_get rt b) then a else b)"

definition processRow :: "rawRecord \<Rightarrow> nat \<Rightarrow> js_error + processedRow" where
  "processRow row index =
     (let r = \<lparr> DEPTH = or_null (parseFloat (getp row ''DEPTH'')),
                 SH = or_zero (parseFloat (getp row ''%SH'')),
                 SS = or_zero (parseFloat (getp row ''%SS'')),
                 LS = or_zero (parseFloat (getp row ''%LS'')),
                 DOL = or_zero (parseFloat (getp row ''%DOL'')),
                 ANH = or_zero (parseFloat (getp row ''%ANH'')),
                 Coal = or_zero (parseFloat (getp row ''%Coal'')),
                 Salt = or_zero (parseFloat (getp row ''%Salt'')),
                 DT = or_null (parseFloat (getp row ''DT'')),
                 GR = or_null (parseFloat (getp row ''GR'')),
                 rowIndex = index + 1,
                 dominantRockType = [] \<rparr>
      in case js_reduce (pick_greater (rockTypes r)) (map fst (rockTypes r)) of
           Inl e \<Rightarrow> Inl e
         | Inr d \<Rightarrow> Inr (r\<lparr>dominantRockType := d\<rparr>))"

definition processExcelData :: "rawRecord list \<Rightarrow> js_error + processedRow list" where
  "processExcelData data = js_map processRow data 0"

section \<open>Specification-side notions for the dominant category\<close>

text \<open>
  A percentage achieves the maximum of a row when no percentage of the row is greater.
  The first and the last category, in the order Shale, Sandstone, Limestone, Dolomite,
  Anhydrite, Coal, Salt, whose percentage achieves the maximum.
\<close>

definition is_max :: "(string \<times> number) list \<Rightarrow> number \<Rightarrow> bool" where
  "is_max rt v = list_all (\<lambda>p. \<not> js_gt (snd p) v) rt"

definition first_max_category :: "processedRow \<Rightarrow> string option" where
  "first_max_category r =
     map_option fst (find (\<lambda>p. is_max (rockTypes r) (snd p)) (rockTypes r))"

definition last_max_category :: "processedRow \<Rightarrow> string option" where
  "last_max_category r =
     map_option fst (find (\<lambda>p. is_max (rockTypes r) (snd p)) (rev (rockTypes r)))"

text \<open>The reducer of \<open>processExcelData\<close> on the entries of \<open>rockTypes\<close> instead of its keys.\<close>

definition pick_pair :: "string \<times> number \<Rightarrow> string \<times> number \<Rightarrow> string \<times> number" where
  "pick_pair p q = (if js_gt (snd p) (snd q) then p else q)"

text \<open>Example rows: a row of empty cells, and a row where Shale and Sandstone tie.\<close>

definition blank_result :: processedRow where
  "blank_result =
     \<lparr> DEPTH = None, SH = Fin 0, SS = Fin 0, LS = Fin 0, DOL = Fin 0, ANH = Fin 0,
       Coal = Fin 0, Salt = Fin 0, DT = None, GR = None, rowIndex = 1,
       dominantRockType = ''Salt'' \<rparr>"

definition tie_row :: rawRecord where
  "tie_row = [(''DEPTH'', JNum (Fin 100)), (''%SH'', JNum (Fin (1 / 2))),
              (''%SS'', JNum (Fin (1 / 2))), (''%LS'', JNum (Fin 0)),
              (''%DOL'', JNull), (''%ANH'', JStr ''n/a''), (''DT'', JNum (Fin 80)),
              (''GR'', JNum (Fin 45))]"

definition tie_result :: processedRow where
  "tie_result =
     \<lparr> DEPTH = Some (Fin 100), SH = Fin (1 / 2), SS = Fin (1 / 2), LS = Fin 0, DOL = Fin 0,
       ANH = Fin 0, Coal = Fin 0, Salt = Fin 0, DT = Some (Fin 80), GR = Some (Fin 45),
       rowIndex = 1, dominantRockType = ''Sandstone'' \<rparr>"

section \<open>Statistics of an upload\<close>

text \<open>
  The summary that the upload handler computes from the processed rows. The fields
  \<open>min\<close> and \<open>max\<close> of \<open>depthRange\<close> and \<open>DT\<close> and \<open>GR\<close> of \<open>averages\<close> carry a prefix
  here. \<open>rockTypeDistribution\<close> is an object: its entries in insertion order.
\<close>

record depthRange =
  range_min :: number
  range_max :: number

record averages =
  avg_DT :: number
  avg_GR :: number

record statistics =
  totalRows :: nat
  depthRange :: depthRange
  rockTypeDistribution :: "(string \<times> number) list"
  averages :: averages

text \<open>\<open>Math.min\<close> and \<open>Math.max\<close> of a list of arguments.\<close>

definition math_min :: "number list \<Rightarrow> number" where
  "math_min xs = (if NaN \<in> set xs then NaN
                  else foldl (\<lambda>a b. if js_lt b a then b else a) PosInf xs)"

definition math_max :: "number list \<Rightarrow> number" where
  "math_max xs = (if NaN \<in> set xs then NaN
                  else foldl (\<lambda>a b. if js_lt a b then b else a) NegInf xs)"

text \<open>\<open>.filter(d => d !== null)\<close> on a list of numbers or \<open>null\<close>.\<close>

definition non_null :: "number option list \<Rightarrow> number list" where
  "non_null ds = concat (map (\<lambda>d. case d of None \<Rightarrow> [] | Some v \<Rightarrow> [v]) ds)"

text \<open>\<open>row.DT || 0\<close> for a field that is a number or \<open>null\<close>.\<close>

definition opt_or_zero :: "number option \<Rightarrow> number" where
  "opt_or_zero d = (case d of None \<Rightarrow> Fin 0 | Some n \<Rightarrow> or_zero n)"

text \<open>\<open>obj[k] = (obj[k] || 0) + 1\<close>: a new key goes to the end of the object.\<close>

definition bump :: "(string \<times> number) list \<Rightarrow> string \<Rightarrow> (string \<times> number) list" where
  "bump obj k =
     (let c = js_add (or_zero (rt_get obj k)) (Fin 1)
      in if k \<in> set (map fst obj) then map (\<lambda>p. if fst p = k then (k, c) else p) obj
         else obj @ [(k, c)])"

definition computeStats :: "processedRow list \<Rightarrow> statistics" where
  "computeStats processedData =
     \<lparr> totalRows = length processedData,
       depthRange =
         \<lparr> range_min = math_min (non_null (map DEPTH processedData)),
           range_max = math_max (non_null (map DEPTH processedData)) \<rparr>,
       rockTypeDistribution = foldl bump [] (map dominantRockType processedData),
       averages =
         \<lparr> avg_DT = js_div (foldl (\<lambda>sum row. js_add sum (opt_or_zero (DT row))) (Fin 0)
                              processedData)
                      (Fin (of_nat (length processedData))),
           avg_GR = js_div (foldl (\<lambda>sum row. js_add sum (opt_or_zero (GR row))) (Fin 0)
                              processedData)
                      (Fin (of_nat (length processedData))) \<rparr> \<rparr>"

text \<open>
  The average as the specification words it: the sum over all rows, taken in row
  order from \<open>0\<close>, of the value with \<open>null\<close> replaced by \<open>0\<close>, divided by the number of
  rows.
\<close>

definition null_as_zero :: "number option \<Rightarrow> number" where
  "null_as_zero d = (case d of None \<Rightarrow> Fin 0 | Some n \<Rightarrow> n)"

definition sum_in_order :: "number list \<Rightarrow> number" where
  "sum_in_order xs = foldl js_add (Fin 0) xs"

definition mean_over_all_rows :: "number option list \<Rightarrow> number" where
  "mean_over_all_rows ds =
     js_div (sum_in_order (map null_as_zero ds)) (Fin (of_nat (length ds)))"

text \<open>Three rows with \<open>DT = 80, 85, 90\<close> and \<open>GR = 45, 50, 55\<close>.\<close>

definition three_rows :: "rawRecord list" where
  "three_rows =
     [[(''DEPTH'', JNum (Fin 100)), (''DT'', JNum (Fin 80)), (''GR'', JNum (Fin 45))],
      [(''DEPTH'', JNum (Fin 200)), (''DT'', JNum (Fin 85)), (''GR'', JNum (Fin 50))],
      [(''DEPTH'', JNum (Fin 300)), (''DT'', JNum (Fin 90)), (''GR'', JNum (Fin 55))]]"

definition three_results :: "processedRow list" where
  "three_results =
     [blank_result\<lparr>DEPTH := Some (Fin 100), DT := Some (Fin 80), GR := Some (Fin 45)\<rparr>,
      blank_result\<lparr>DEPTH := Some (Fin 200), DT := Some (Fin 85), GR := Some (Fin 50),
        rowIndex := 2\<rparr>,
      blank_result\<lparr>DEPTH := Some (Fin 300), DT := Some (Fin 90), GR := Some (Fin 55),
        rowIndex := 3\<rparr>]"

text \<open>A row whose \<open>DEPTH\<close>, \<open>DT\<close>, \<open>GR\<close> and \<open>%SH\<close> cells hold the number \<open>0\<close>.\<close>

definition zero_row :: rawRecord where
  "zero_row = [(''DEPTH'', JNum (Fin 0)), (''DT'', JNum (Fin 0)), (''GR'', JNum (Fin 0)),
               (''%SH'', JNum (Fin 0))]"

section \<open>The structure validator (\<open>validateExcelStructure\<close>)\<close>

record validation =
  isValid :: bool
  errors :: "string list"
  seenRows :: "nat option"
  columns :: "string list option"

text \<open>
  \<open>seenRows\<close> is the field \<open>totalRows\<close> of the source; it and \<open>columns\<close> are absent from
  the result for an empty data set.
\<close>

definition requiredColumns :: "string list" where
  "requiredColumns =
     [''DEPTH'', ''%SH'', ''%SS'', ''%LS'', ''%DOL'', ''%ANH'', ''%Coal'', ''%Salt'', ''DT'', ''GR'']"

definition percentageColumns :: "string list" where
  "percentageColumns = [''%SH'', ''%SS'', ''%LS'', ''%DOL'', ''%ANH'', ''%Coal'', ''%Salt'']"

text \<open>\<open>Array.prototype.join\<close>.\<close>

fun join :: "string \<Rightarrow> string list \<Rightarrow> string" where
  "join sep [] = []"
| "join sep [x] = x"
| "join sep (x # y # ys) = x @ sep @ join sep (y # ys)"

text \<open>\<open>v !== null && v !== undefined\<close>.\<close>

definition present :: "jsval \<Rightarrow> bool" where
  "present v = (v \<noteq> JNull \<and> v \<noteq> JUndef)"

text \<open>
  A method call \<open>v.toFixed(f)\<close>: only a number has the method; on \<open>null\<close> and
  \<open>undefined\<close> the property read throws, on a string or a boolean the call does. The
  exception is a \<open>TypeError\<close>; its message is the engine's, without the name of the
  receiver.
\<close>

definition call_toFixed :: "jsval \<Rightarrow> nat \<Rightarrow> js_error + string" where
  "call_toFixed v f =
     (case v of
        JNum n \<Rightarrow> Inr (toFixed n f)
      | JNull \<Rightarrow> Inl (TypeError ''Cannot read properties of null (reading 'toFixed')'')
      | JUndef \<Rightarrow> Inl (TypeError ''Cannot read properties of undefined (reading 'toFixed')'')
      | _ \<Rightarrow> Inl (TypeError ''toFixed is not a function''))"

definition depth_errors :: "rawRecord \<Rightarrow> nat \<Rightarrow> string list" where
  "depth_errors row rowNum =
     (let v = getp row ''DEPTH''
      in if present v \<and> (\<not> is_number v \<or> js_lt (to_number v) (Fin 0))
         then [''Row '' @ show_nat rowNum @ '': DEPTH must be a positive number'']
         else [])"

definition percent_errors :: "rawRecord \<Rightarrow> nat \<Rightarrow> string list" where
  "percent_errors row rowNum =
     concat (map (\<lambda>col. let v = getp row col
                         in if present v \<and> (\<not> is_number v \<or> js_lt (to_number v) (Fin 0)
                                              \<or> js_gt (to_number v) (Fin 1))
                            then [''Row '' @ show_nat rowNum @ '': '' @ col
                                  @ '' must be a number between 0 and 1'']
                            else [])
             percentageColumns)"

definition number_errors :: "rawRecord \<Rightarrow> nat \<Rightarrow> string list" where
  "number_errors row rowNum =
     concat (map (\<lambda>col. let v = getp row col
                         in if present v \<and> \<not> is_number v
                            then [''Row '' @ show_nat rowNum @ '': '' @ col @ '' must be a number'']
                            else [])
             [''DT'', ''GR''])"

definition rockCompositionSum :: "rawRecord \<Rightarrow> jsval" where
  "rockCompositionSum row =
     js_plus (js_plus (js_plus (js_plus (js_plus (js_plus
       (js_or (getp row ''%SH'') (JNum (Fin 0)))
       (js_or (getp row ''%SS'') (JNum (Fin 0))))
       (js_or (getp row ''%LS'') (JNum (Fin 0))))
       (js_or (getp row ''%DOL'') (JNum (Fin 0))))
       (js_or (getp row ''%ANH'') (JNum (Fin 0))))
       (js_or (getp row ''%Coal'') (JNum (Fin 0))))
       (js_or (getp row ''%Salt'') (JNum (Fin 0)))"

text \<open>The literal \<open>0.01\<close> is the binary64 value nearest to one hundredth.\<close>

definition sum_errors :: "rawRecord \<Rightarrow> nat \<Rightarrow> js_error + string list" where
  "sum_errors row rowNum =
     (let s = rockCompositionSum row
      in if js_gt (js_abs (js_sub (to_number s) (Fin 1))) (rnd (1 / 100))
         then (case call_toFixed s 3 of
                 Inl e \<Rightarrow> Inl e
               | Inr t \<Rightarrow>
                   Inr [''Row '' @ show_nat rowNum
                        @ '': Rock composition percentages should sum to approximately 1.0 (current sum: ''
                        @ t @ '')''])
         else Inr [])"

text \<open>The errors that the loop body pushes for one row, in the order of the pushes.\<close>

definition row_errors :: "rawRecord \<Rightarrow> nat \<Rightarrow> js_error + string list" where
  "row_errors row index =
     (let rowNum = index + 1
      in case sum_errors row rowNum of
           Inl e \<Rightarrow> Inl e
         | Inr se \<Rightarrow>
             Inr (depth_errors row rowNum @ percent_errors row rowNum
                  @ number_errors row rowNum @ se))"

fun validate_rows :: "rawRecord list \<Rightarrow> nat \<Rightarrow> js_error + string list" where
  "validate_rows [] index = Inr []"
| "validate_rows (row # rest) index =
     (case row_errors row index of
        Inl e \<Rightarrow> Inl e
      | Inr es \<Rightarrow> (case validate_rows rest (Suc index) of
                    Inl e \<Rightarrow> Inl e
                  | Inr fs \<Rightarrow> Inr (es @ fs)))"

definition missing_errors :: "rawRecord \<Rightarrow> string list" where
  "missing_errors first =
     (let headers = map fst first;
          missingColumns = filter (\<lambda>col. col \<notin> set headers) requiredColumns
      in if missingColumns \<noteq> []
         then [''Missing required columns: '' @ join '', '' missingColumns]
         else [])"

definition validateExcelStructure :: "rawRecord list \<Rightarrow> js_error + validation" where
  "validateExcelStructure data =
     (case data of
        [] \<Rightarrow> Inr \<lparr> isValid = False, errors = [''Excel file is empty or contains no data''],
                    seenRows = None, columns = None \<rparr>
      | first # _ \<Rightarrow>
          (case validate_rows data 0 of
             Inl e \<Rightarrow> Inl e
           | Inr es \<Rightarrow>
               Inr \<lparr> isValid = (missing_errors first @ es = []),
                     errors = missing_errors first @ es,
                     seenRows = Some (length data),
                     columns = Some (map fst first) \<rparr>))"

section \<open>What the chat endpoint receives\<close>

text \<open>
  The upload response travels to the client and back as JSON: a number that is not
  finite is written as \<open>null\<close>. \<open>row_json\<close> is the object of a processed row as the chat
  endpoint reads it back.
\<close>

definition json_num :: "number \<Rightarrow> jsval" where
  "json_num n = (case n of Fin a \<Rightarrow> JNum (Fin a) | _ \<Rightarrow> JNull)"

definition json_opt :: "number option \<Rightarrow> jsval" where
  "json_opt d = (case d of None \<Rightarrow> JNull | Some n \<Rightarrow> json_num n)"

definition row_json :: "processedRow \<Rightarrow> rawRecord" where
  "row_json r =
     [(''DEPTH'', json_opt (DEPTH r)), (''SH'', json_num (SH r)), (''SS'', json_num (SS r)),
      (''LS'', json_num (LS r)), (''DOL'', json_num (DOL r)), (''ANH'', json_num (ANH r)),
      (''Coal'', json_num (Coal r)), (''Salt'', json_num (Salt r)),
      (''DT'', json_opt (DT r)), (''GR'', json_opt (GR r)),
      (''rowIndex'', JNum (Fin (of_nat (rowIndex r)))),
      (''dominantRockType'', JStr (dominantRockType r))]"

record uploadedData =
  rows :: "rawRecord list option"
  statistics :: "statistics option"

section \<open>Anomaly detection (\<open>detectDataAnomalies\<close>)\<close>

record anomaly =
  depth :: jsval
  type :: string
  description :: string

definition totalComposition :: "rawRecord \<Rightarrow> jsval" where
  "totalComposition row =
     foldl (\<lambda>sum t. js_plus sum (js_or (js_or (getp row (''%'' @ t)) (getp row t)) (JNum (Fin 0))))
       (JNum (Fin 0)) [''SH'', ''SS'', ''LS'', ''DOL'', ''ANH'', ''Coal'', ''Salt'']"

text \<open>The Greek letter mu of the unit, in UTF-8.\<close>

definition micro :: string where
  "micro = [char_of (206 :: nat), char_of (188 :: nat)]"

definition composition_anomaly :: "rawRecord \<Rightarrow> js_error + anomaly list" where
  "composition_anomaly row =
     (let total = totalComposition row
      in if js_gt (js_abs (js_sub (to_number total) (Fin 100))) (Fin 15)
         then (case call_toFixed total 1 of
                 Inl e \<Rightarrow> Inl e
               | Inr t \<Rightarrow>
                   Inr [\<lparr> depth = getp row ''DEPTH'', type = ''composition_error'',
                          description = ''Depth '' @ to_string (getp row ''DEPTH'')
                            @ ''m: rock composition sums to '' @ t @ ''%'' \<rparr>])
         else Inr [])"

definition dt_anomaly :: "rawRecord \<Rightarrow> anomaly list" where
  "dt_anomaly row =
     (let v = getp row ''DT''
      in if truthy v \<and> (js_lt (to_number v) (Fin 30) \<or> js_gt (to_number v) (Fin 250))
         then [\<lparr> depth = getp row ''DEPTH'', type = ''dt_extreme'',
                  description = ''Depth '' @ to_string (getp row ''DEPTH'')
                    @ ''m: extreme DT value ('' @ to_string v @ '' '' @ micro @ ''s/ft)'' \<rparr>]
         else [])"

definition gr_anomaly :: "rawRecord \<Rightarrow> anomaly list" where
  "gr_anomaly row =
     (let v = getp row ''GR''
      in if truthy v \<and> (js_lt (to_number v) (Fin 0) \<or> js_gt (to_number v) (Fin 400))
         then [\<lparr> depth = getp row ''DEPTH'', type = ''gr_extreme'',
                  description = ''Depth '' @ to_string (getp row ''DEPTH'')
                    @ ''m: extreme GR value ('' @ to_string v @ '' API)'' \<rparr>]
         else [])"

text \<open>The anomalies that the loop body pushes for one row.\<close>

definition row_anomalies :: "rawRecord \<Rightarrow> js_error + anomaly list" where
  "row_anomalies row =
     (case composition_anomaly row of
        Inl e \<Rightarrow> Inl e
      | Inr c \<Rightarrow> Inr (c @ dt_anomaly row @ gr_anomaly row))"

fun all_anomalies :: "rawRecord list \<Rightarrow> js_error + anomaly list" where
  "all_anomalies [] = Inr []"
| "all_anomalies (row # rest) =
     (case row_anomalies row of
        Inl e \<Rightarrow> Inl e
      | Inr a \<Rightarrow> (case all_anomalies rest of Inl e \<Rightarrow> Inl e | Inr b \<Rightarrow> Inr (a @ b)))"

definition detectDataAnomalies :: "rawRecord list option \<Rightarrow> js_error + anomaly list" where
  "detectDataAnomalies rs =
     (case rs of
        None \<Rightarrow> Inr []
      | Some [] \<Rightarrow> Inr []
      | Some rws \<Rightarrow> (case all_anomalies rws of Inl e \<Rightarrow> Inl e | Inr a \<Rightarrow> Inr (take 5 a)))"

section \<open>Drilling recommendations (\<open>generateDrillingRecommendations\<close>)\<close>

text \<open>A number of the statistics as it arrives in the request, and \<open>v || 0\<close> on it.\<close>

definition count_or_zero :: "(string \<times> number) list \<Rightarrow> string \<Rightarrow> number" where
  "count_or_zero rockDist k = or_zero (rt_get rockDist k)"

definition generateDrillingRecommendations :: "uploadedData option \<Rightarrow> string" where
  "generateDrillingRecommendations uploaded =
     (case uploaded of
        None \<Rightarrow> ''Upload data required for specific recommendations.''
      | Some u \<Rightarrow>
         (case statistics u of
            None \<Rightarrow> ''Upload data required for specific recommendations.''
          | Some stats \<Rightarrow>
             (let rockDist = rockTypeDistribution stats;
                  totalIntervals = foldl js_add (Fin 0) (map snd rockDist);
                  shalePercent =
                    js_mul (js_div (count_or_zero rockDist ''SH'') totalIntervals) (Fin 100);
                  sandstonePercent =
                    js_mul (js_div (count_or_zero rockDist ''SS'') totalIntervals) (Fin 100);
                  carbonatePercent =
                    js_mul (js_div (js_add (count_or_zero rockDist ''LS'')
                                      (count_or_zero rockDist ''DOL'')) totalIntervals) (Fin 100);
                  avgDT = to_number (json_num (avg_DT (averages stats)));
                  avgGR = to_number (json_num (avg_GR (averages stats)));
                  recommendations =
                    (if js_gt shalePercent (Fin 40)
                     then [''High shale content detected - use inhibitive mud system to prevent wellbore instability'']
                     else [])
                    @ (if js_gt sandstonePercent (Fin 30)
                       then [''Significant sandstone intervals - consider PDC bits for optimal ROP'']
                       else [])
                    @ (if js_gt carbonatePercent (Fin 25)
                       then [''Carbonate formations present - roller cone bits may be more effective'']
                       else [])
                    @ (if js_gt avgDT (Fin 100)
                       then [''High DT values suggest porous formations - monitor for potential lost circulation'']
                       else if js_lt avgDT (Fin 60)
                       then [''Low DT values indicate dense formations - expect slower drilling rates'']
                       else [])
                    @ (if js_gt avgGR (Fin 100)
                       then [''High GR readings indicate clay-rich zones - use appropriate mud additives for shale control'']
                       else [])
              in ''Drilling recommendations based on your data: ''
                 @ join ''; ''
                     (if recommendations = []
                      then [''Formation appears relatively uniform - maintain current drilling parameters and monitor for changes'']
                      else recommendations)
                 @ ''.'')))"

section \<open>Notions for the claims about anomalies\<close>

text \<open>
  The sum of the seven percentages of a processed row, in the order of the fields; a
  percentage cell that the validator accepts; and example data: a valid data set of one
  row, and a row whose only percentage is \<open>85\<close>.
\<close>

definition pct_sum :: "processedRow \<Rightarrow> number" where
  "pct_sum r = sum_in_order [SH r, SS r, LS r, DOL r, ANH r, Coal r, Salt r]"

definition boundary_result :: processedRow where
  "boundary_result = blank_result\<lparr>SH := Fin 85, dominantRockType := ''Shale''\<rparr>"

definition fin_or_zero :: "number \<Rightarrow> number" where
  "fin_or_zero v = (case v of Fin a \<Rightarrow> Fin a | _ \<Rightarrow> Fin 0)"

definition cell_ok :: "jsval \<Rightarrow> bool" where
  "cell_ok v = (\<not> (present v \<and> (\<not> is_number v \<or> js_lt (to_number v) (Fin 0)
                                   \<or> js_gt (to_number v) (Fin 1))))"

definition valid_data :: "rawRecord list" where
  "valid_data =
     [[(''DEPTH'', JNum (Fin 100)), (''%SH'', JNum (Fin 1)), (''%SS'', JNum (Fin 0)),
       (''%LS'', JNum (Fin 0)), (''%DOL'', JNum (Fin 0)), (''%ANH'', JNum (Fin 0)),
       (''%Coal'', JNum (Fin 0)), (''%Salt'', JNum (Fin 0)), (''DT'', JNum (Fin 80)),
       (''GR'', JNum (Fin 45))]]"

definition valid_result :: processedRow where
  "valid_result =
     blank_result\<lparr>DEPTH := Some (Fin 100), SH := Fin 1, DT := Some (Fin 80),
       GR := Some (Fin 45), dominantRockType := ''Shale''\<rparr>"

definition boundary_data :: "rawRecord list" where
  "boundary_data = [[(''%SH'', JNum (Fin 85))]]"

section \<open>Example data for the validator\<close>

text \<open>
  A data set whose \<open>%SH\<close> cell is the text \<open>1\<close>; a row with all ten columns and the
  given percentages (each the binary64 value nearest to the decimal fraction); a data
  set whose percentages sum to \<open>0.99\<close>, and one whose percentages sum to \<open>1.01\<close>.
\<close>

definition text_cell_data :: "rawRecord list" where
  "text_cell_data =
     [[(''DEPTH'', JNum (Fin 100)), (''%SH'', JStr ''1''), (''%SS'', JNum (Fin 0)),
       (''%LS'', JNum (Fin 0)), (''%DOL'', JNum (Fin 0)), (''%ANH'', JNum (Fin 0)),
       (''%Coal'', JNum (Fin 0)), (''%Salt'', JNum (Fin 0)), (''DT'', JNum (Fin 80)),
       (''GR'', JNum (Fin 45))]]"

definition full_row :: "rat list \<Rightarrow> rawRecord" where
  "full_row ps =
     [(''DEPTH'', JNum (Fin 100)), (''%SH'', JNum (rnd (ps ! 0))), (''%SS'', JNum (rnd (ps ! 1))),
      (''%LS'', JNum (rnd (ps ! 2))), (''%DOL'', JNum (rnd (ps ! 3))),
      (''%ANH'', JNum (rnd (ps ! 4))), (''%Coal'', JNum (rnd (ps ! 5))),
      (''%Salt'', JNum (rnd (ps ! 6))), (''DT'', JNum (Fin 80)), (''GR'', JNum (Fin 45))]"

definition sum_099_data :: "rawRecord list" where
  "sum_099_data = [full_row [99 / 100, 0, 0, 0, 0, 0, 0]]"

definition sum_101_data :: "rawRecord list" where
  "sum_101_data = [full_row [25 / 100, 35 / 100, 20 / 100, 10 / 100, 5 / 100, 3 / 100, 3 / 100]]"

section \<open>The upload handler (\<open>POST /api/upload\<close>)\<close>

text \<open>
  The handler's input is the uploaded file: its name, and what the spreadsheet library
  makes of its content. \<open>XLSX.readFile\<close> throws (\<open>Inl\<close> the message) or returns a
  workbook; a worksheet is modelled by the rows that \<open>sheet_to_json\<close> returns for it
  (arrays of cells, the header row first). The removal of the temporary file and the
  insert into the table of uploads are left out.
\<close>

datatype workbook = Workbook (SheetNames: "string list option") (Sheets: "string \<rightharpoonup> jsval list list")

record upload_file =
  originalname :: string
  content :: "string + workbook"

datatype details = Text string | Items "string list"

record rejection =
  status :: nat
  error :: string
  message :: "string option"
  details :: details
  suggestions :: "string list"

text \<open>
  A response: a rejection, or the success body with its message, the processed rows,
  their count, the statistics, the columns found and the warnings.
\<close>

datatype response =
    Rejected rejection
  | Accepted string "processedRow list" nat statistics "string list option" "string list"

record handled =
  reply :: response
  validated :: bool

text \<open>\<open>validated\<close> records whether the handler called \<open>validateExcelStructure\<close>.\<close>

text \<open>\<open>String.prototype.toLowerCase\<close> and \<open>includes\<close>, on ASCII text.\<close>

definition to_lower :: "string \<Rightarrow> string" where
  "to_lower s =
     map (\<lambda>c. let n = of_char c :: nat in if 65 \<le> n \<and> n \<le> 90 then char_of (n + 32) else c) s"

fun js_includes :: "string \<Rightarrow> string \<Rightarrow> bool" where
  "js_includes [] sub = (sub = [])"
| "js_includes (c # cs) sub = (take (length sub) (c # cs) = sub \<or> js_includes cs sub)"

text \<open>
  \<open>path.extname\<close>: the text from the last dot of the last path segment, empty when
  there is no dot, when the segment starts with its only dot, and for \<open>..\<close>.
\<close>

definition extname :: "string \<Rightarrow> string" where
  "extname p =
     (let b = rev (takeWhile (\<lambda>c. c \<noteq> CHR ''/'') (dropWhile (\<lambda>c. c = CHR ''/'') (rev p)));
          ext = CHR ''.'' # rev (takeWhile (\<lambda>c. c \<noteq> CHR ''.'') (rev b))
      in if CHR ''.'' \<notin> set b \<or> length b = length ext \<or> b = ''..'' then [] else ext)"

definition reject :: "nat \<Rightarrow> string \<Rightarrow> details \<Rightarrow> rejection" where
  "reject s e d = \<lparr> status = s, error = e, message = None, details = d, suggestions = [] \<rparr>"

definition no_file :: rejection where
  "no_file = reject 400 ''No file uploaded'' (Text ''Please select an Excel file to upload'')"

definition unsupported_format :: rejection where
  "unsupported_format =
     reject 400 ''Only Excel files are allowed''
       (Text ''Please upload a file with .xlsx or .xls extension'')"

definition malformed_file :: "string \<Rightarrow> rejection" where
  "malformed_file msg =
     (reject 400 ''Invalid Excel file format'' (Text msg))
       \<lparr> message := Some ''Please ensure you are uploading a valid Excel file (.xlsx or .xls)'' \<rparr>"

definition structure_rejection :: "string list \<Rightarrow> rejection" where
  "structure_rejection ds = reject 400 ''Invalid Excel file structure'' (Items ds)"

definition no_worksheets :: rejection where
  "no_worksheets = structure_rejection [''Excel file contains no worksheets'']"

definition unreadable_worksheet :: rejection where
  "unreadable_worksheet = structure_rejection [''Unable to read worksheet data'']"

definition empty_file :: rejection where
  "empty_file = structure_rejection [''Excel file is empty or contains no data'']"

definition no_data_rows :: rejection where
  "no_data_rows =
     structure_rejection [''Excel file must contain at least a header row and one data row'']"

definition invalid_structure :: "string list \<Rightarrow> rejection" where
  "invalid_structure errs =
     (structure_rejection errs)
       \<lparr> suggestions :=
           [''Ensure your Excel file contains all required columns: DEPTH, %SH, %SS, %LS, %DOL, %ANH, %Coal, %Salt, DT, GR'',
            ''Check that percentage values are between 0 and 1'',
            ''Verify that DEPTH values are positive numbers'',
            ''Ensure DT and GR values are numeric''] \<rparr>"

definition no_processed_rows :: rejection where
  "no_processed_rows =
     structure_rejection
       [''Excel file contains no data rows. Please ensure your file contains at least one row of data.'']"

text \<open>The outer \<open>catch\<close> of the handler.\<close>

definition format_hint :: string where
  "format_hint = ''Please ensure your Excel file follows the required format with columns: DEPTH, %SH, %SS, %LS, %DOL, %ANH, %Coal, %Salt, DT, GR''"

definition caught :: "js_error \<Rightarrow> rejection" where
  "caught e =
     (case e of
        TypeError msg \<Rightarrow>
          if js_includes msg ''Invalid Excel file structure'' \<or> js_includes msg ''Excel file is empty''
             \<or> js_includes msg ''Invalid Excel file format'' \<or> js_includes msg ''No file uploaded''
          then (reject 400 ''Invalid Excel file structure'' (Text format_hint))\<lparr> message := Some msg \<rparr>
          else (reject 500 ''Failed to process file'' (Text format_hint))\<lparr> message := Some msg \<rparr>)"

text \<open>
  The object of a data row: \<open>headers.forEach((header, index) => obj[header] = row[index])\<close>.
\<close>

definition to_object :: "jsval list \<Rightarrow> jsval list \<Rightarrow> rawRecord" where
  "to_object headers row =
     foldl (\<lambda>obj (header, index).
              obj_put obj (to_string header) (if index < length row then row ! index else JUndef))
       [] (zip headers [0..<length headers])"

definition process_sheet :: "jsval list list \<Rightarrow> handled" where
  "process_sheet rawData =
     (case rawData of
        [] \<Rightarrow> \<lparr> reply = Rejected empty_file, validated = False \<rparr>
      | headers # body \<Rightarrow>
          if length rawData < 2 then \<lparr> reply = Rejected no_data_rows, validated = False \<rparr>
          else
            (let dataRows = map (to_object headers) body
             in case validateExcelStructure dataRows of
                  Inl e \<Rightarrow> \<lparr> reply = Rejected (caught e), validated = True \<rparr>
                | Inr validation \<Rightarrow>
                    if \<not> isValid validation
                    then \<lparr> reply = Rejected (invalid_structure (errors validation)),
                           validated = True \<rparr>
                    else
                      (case processExcelData dataRows of
                         Inl e \<Rightarrow> \<lparr> reply = Rejected (caught e), validated = True \<rparr>
                       | Inr processedData \<Rightarrow>
                           if processedData = []
                           then \<lparr> reply = Rejected no_processed_rows, validated = True \<rparr>
                           else \<lparr> reply = Accepted ''File uploaded and processed successfully''
                                            processedData (length processedData)
                                            (computeStats processedData) (columns validation)
                                            (if errors validation \<noteq> [] then errors validation
                                             else []),
                                  validated = True \<rparr>)))"

definition upload :: "upload_file option \<Rightarrow> handled" where
  "upload file =
     (case file of
        None \<Rightarrow> \<lparr> reply = Rejected no_file, validated = False \<rparr>
      | Some f \<Rightarrow>
          if to_lower (extname (originalname f)) \<notin> set [''.xlsx'', ''.xls'']
          then \<lparr> reply = Rejected unsupported_format, validated = False \<rparr>
          else
            (case content f of
               Inl msg \<Rightarrow> \<lparr> reply = Rejected (malformed_file msg), validated = False \<rparr>
             | Inr wb \<Rightarrow>
                 (case SheetNames wb of
                    None \<Rightarrow> \<lparr> reply = Rejected no_worksheets, validated = False \<rparr>
                  | Some [] \<Rightarrow> \<lparr> reply = Rejected no_worksheets, validated = False \<rparr>
                  | Some (sheetName # _) \<Rightarrow>
                      (case Sheets wb sheetName of
                         None \<Rightarrow> \<lparr> reply = Rejected unreadable_worksheet, validated = False \<rparr>
                       | Some rawData \<Rightarrow> process_sheet rawData))))"

text \<open>A file that decodes to one sheet with the given rows.\<close>

definition sheet_file :: "string \<Rightarrow> jsval list list \<Rightarrow> upload_file" where
  "sheet_file name rawData =
     \<lparr> originalname = name,
       content = Inr (Workbook (Some [''Sheet1'']) [''Sheet1'' \<mapsto> rawData]) \<rparr>"

definition header_row :: "jsval list" where
  "header_row = map JStr requiredColumns"

section \<open>The fallback responder (\<open>generateFallbackResponse\<close>)\<close>

text \<open>
  The well of a chat request is a row of the table of wells; each field is a JSON
  value, \<open>undefined\<close> when it is absent.
\<close>

record wellData =
  well_id :: jsval
  well_name :: jsval
  well_depth :: jsval
  well_status :: jsval

text \<open>\<open>v.toLowerCase()\<close>: only a string has the method.\<close>

definition call_toLowerCase :: "jsval \<Rightarrow> js_error + string" where
  "call_toLowerCase v =
     (case v of
        JStr s \<Rightarrow> Inr (to_lower s)
      | JNull \<Rightarrow> Inl (TypeError ''Cannot read properties of null (reading 'toLowerCase')'')
      | JUndef \<Rightarrow> Inl (TypeError ''Cannot read properties of undefined (reading 'toLowerCase')'')
      | _ \<Rightarrow> Inl (TypeError ''toLowerCase is not a function''))"

text \<open>\<open>uploadedData.rows.length\<close>.\<close>

definition rows_length :: "uploadedData \<Rightarrow> js_error + nat" where
  "rows_length u =
     (case rows u of
        None \<Rightarrow> Inl (TypeError ''Cannot read properties of undefined (reading 'length')'')
      | Some rs \<Rightarrow> Inr (length rs))"

text \<open>
  \<open>Object.entries(obj).sort(([,a], [,b]) => b - a)\<close>: the entries by decreasing count;
  the sort is stable.
\<close>

fun insert_desc :: "string \<times> number \<Rightarrow> (string \<times> number) list \<Rightarrow> (string \<times> number) list" where
  "insert_desc p [] = [p]"
| "insert_desc p (q # qs) = (if js_lt (snd q) (snd p) then p # q # qs else q # insert_desc p qs)"

definition sort_desc :: "(string \<times> number) list \<Rightarrow> (string \<times> number) list" where
  "sort_desc entries = foldl (\<lambda>acc p. insert_desc p acc) [] entries"

definition share_text :: "number \<Rightarrow> number \<Rightarrow> string" where
  "share_text c n = toFixed (js_mul (js_div c n) (Fin 100)) 1"

definition generateDataInsights :: "uploadedData option \<Rightarrow> js_error + string" where
  "generateDataInsights uploaded =
     (case uploaded of
        None \<Rightarrow> Inr ''insufficient data for analysis''
      | Some u \<Rightarrow>
         (case (rows u, statistics u) of
            (Some rs, Some stats) \<Rightarrow>
              (let lo = to_number (json_num (range_min (depthRange stats)));
                   hi = to_number (json_num (range_max (depthRange stats)));
                   span = [toFixed (js_sub hi lo) 1 @ ''m interval analyzed''];
                   dominant =
                     (case sort_desc (rockTypeDistribution stats) of
                        [] \<Rightarrow> []
                      | (k, c) # _ \<Rightarrow>
                          [k @ '' is dominant (''
                           @ share_text c (Fin (of_nat (length rs))) @ ''%)'']);
                   dt = json_num (avg_DT (averages stats));
                   gr = json_num (avg_GR (averages stats));
                   dts = (if truthy dt then [''DT averages '' @ toFixed (to_number dt) 1
                                              @ '' '' @ micro @ ''s/ft''] else []);
                   grs = (if truthy gr then [''GR averages '' @ toFixed (to_number gr) 1
                                              @ '' API''] else [])
               in Inr (join '', '' (span @ dominant @ dts @ grs)))
          | _ \<Rightarrow> Inr ''insufficient data for analysis''))"

definition depth_answer :: "wellData option \<Rightarrow> uploadedData option \<Rightarrow> js_error + string" where
  "depth_answer well uploaded =
     (case (case uploaded of None \<Rightarrow> None
            | Some u \<Rightarrow> (case statistics u of None \<Rightarrow> None | Some stats \<Rightarrow> Some (u, stats))) of
        Some (u, stats) \<Rightarrow>
          (let lo = json_num (range_min (depthRange stats));
               hi = json_num (range_max (depthRange stats))
           in case rows_length u of
                Inl e \<Rightarrow> Inl e
              | Inr n \<Rightarrow>
                  Inr (''Based on your uploaded data, the depth range spans from '' @ to_string lo
                       @ ''m to '' @ to_string hi @ ''m (total interval: ''
                       @ toFixed (js_sub (to_number hi) (to_number lo)) 1
                       @ ''m). The data contains '' @ show_nat n
                       @ '' measurement points across this interval.''))
      | None \<Rightarrow>
          (case well of
             Some w \<Rightarrow>
               (case call_toLowerCase (well_status w) of
                  Inl e \<Rightarrow> Inl e
                | Inr st \<Rightarrow>
                    Inr (''The current drilling depth for '' @ to_string (well_name w) @ '' is ''
                         @ to_string (well_depth w) @ ''m. This is a '' @ st @ '' well.''))
           | None \<Rightarrow>
               Inr ''Depth information is not available. Please select a well or upload drilling data to see depth analysis.''))"

definition composition_answer :: "uploadedData option \<Rightarrow> string" where
  "composition_answer uploaded =
     (case (case uploaded of None \<Rightarrow> None | Some u \<Rightarrow> statistics u) of
        Some stats \<Rightarrow>
          (let rockDist = rockTypeDistribution stats;
               totalIntervals = foldl js_add (Fin 0) (map snd rockDist);
               dominantRocks =
                 join '', '' (map (\<lambda>(k, c). k @ '': '' @ share_text c totalIntervals @ ''%'')
                               (take 3 (sort_desc rockDist)))
           in ''Based on your uploaded data, the rock composition analysis shows: '' @ dominantRocks
              @ ''. This distribution across '' @ numToString totalIntervals
              @ '' intervals indicates the geological complexity of your formation. The dominant rock types will influence drilling parameters, mud selection, and completion strategies.'')
      | None \<Rightarrow>
          ''Rock composition data shows the geological makeup of the formation with detailed percentages for Shale (%SH), Sandstone (%SS), Limestone (%LS), Dolomite (%DOL), Anhydrite (%ANH), Coal (%Coal), and Salt (%Salt). This data helps identify formation types and drilling challenges. Please upload your Excel file to see specific composition analysis.'')"

definition dt_answer :: "uploadedData option \<Rightarrow> js_error + string" where
  "dt_answer uploaded =
     (case (case uploaded of None \<Rightarrow> None | Some u \<Rightarrow> statistics u) of
        Some stats \<Rightarrow>
          (let avgDT = json_num (avg_DT (averages stats));
               interpretation =
                 (if js_lt (to_number avgDT) (Fin 60)
                  then ''indicating relatively dense, low-porosity formations (likely carbonates or tight sandstones)''
                  else if js_gt (to_number avgDT) (Fin 100)
                  then ''suggesting higher porosity formations or potentially unconsolidated sediments''
                  else ''indicating moderate porosity formations typical of many reservoir rocks'')
           in case call_toFixed avgDT 1 of
                Inl e \<Rightarrow> Inl e
              | Inr t \<Rightarrow>
                  Inr (''Your uploaded data shows an average DT of '' @ t @ '' '' @ micro @ ''s/ft, ''
                       @ interpretation
                       @ ''. DT measurements help evaluate porosity and rock density, which are crucial for reservoir characterization and drilling optimization.''))
      | None \<Rightarrow>
          Inr (''DT (Delta Time) measurements indicate acoustic travel time through the formation. Lower DT values (40-60 '' @ micro @ ''s/ft) typically suggest denser rocks like carbonates, while higher values (80-140 '' @ micro @ ''s/ft) indicate more porous formations like sandstones. Upload your data to see specific DT analysis.''))"

definition gr_answer :: "uploadedData option \<Rightarrow> js_error + string" where
  "gr_answer uploaded =
     (case (case uploaded of None \<Rightarrow> None | Some u \<Rightarrow> statistics u) of
        Some stats \<Rightarrow>
          (let avgGR = json_num (avg_GR (averages stats));
               interpretation =
                 (if js_lt (to_number avgGR) (Fin 50)
                  then ''indicating clean formations (sandstones or carbonates) with low clay content''
                  else if js_gt (to_number avgGR) (Fin 100)
                  then ''suggesting shale-rich or clay-bearing formations''
                  else ''indicating mixed lithology with moderate clay content'')
           in case call_toFixed avgGR 1 of
                Inl e \<Rightarrow> Inl e
              | Inr t \<Rightarrow>
                  Inr (''Your uploaded data shows an average GR of '' @ t @ '' API, '' @ interpretation
                       @ ''. GR readings help distinguish between clean reservoir rocks and clay-rich formations, guiding completion and stimulation strategies.''))
      | None \<Rightarrow>
          Inr ''GR (Gamma Ray) readings measure natural radioactivity in the formation. Lower GR values (0-50 API) typically indicate clean sandstones or carbonates, while higher values (100+ API) suggest shale or clay-rich formations. Upload your data to see specific GR analysis.'')"

text \<open>\<open>uploadedData && uploadedData.rows\<close>: the rows when both are there.\<close>

definition rows_of :: "uploadedData option \<Rightarrow> rawRecord list option" where
  "rows_of uploaded = (case uploaded of None \<Rightarrow> None | Some u \<Rightarrow> rows u)"

definition analysis_answer :: "uploadedData option \<Rightarrow> js_error + string" where
  "analysis_answer uploaded =
     (case rows_of uploaded of
        Some rs \<Rightarrow>
          (case generateDataInsights uploaded of
             Inl e \<Rightarrow> Inl e
           | Inr insights \<Rightarrow>
               Inr (''Based on your '' @ show_nat (length rs) @ '' data points: '' @ insights
                    @ ''. This analysis can help optimize drilling parameters, predict formation challenges, and plan completion strategies.''))
      | None \<Rightarrow>
          Inr ''To provide detailed analysis, I need access to your drilling data. Please upload your Excel file containing depth, rock composition (%SH, %SS, %LS, %DOL, %ANH, %Coal, %Salt), DT, and GR measurements for comprehensive formation evaluation.'')"

definition recommendation_answer :: "uploadedData option \<Rightarrow> string" where
  "recommendation_answer uploaded =
     (case (case uploaded of None \<Rightarrow> None | Some u \<Rightarrow> statistics u) of
        Some stats \<Rightarrow> generateDrillingRecommendations uploaded
      | None \<Rightarrow>
          ''For specific drilling recommendations, I would need to analyze your formation data. Generally, consider: 1) Monitor drilling parameters closely based on lithology changes, 2) Adjust mud weight based on formation pressure and rock strength, 3) Select appropriate bit types for dominant rock formations, 4) Plan casing points at formation boundaries. Upload your data for tailored recommendations.'')"

definition problem_answer :: "uploadedData option \<Rightarrow> js_error + string" where
  "problem_answer uploaded =
     (case rows_of uploaded of
        Some rs \<Rightarrow>
          (case detectDataAnomalies (Some rs) of
             Inl e \<Rightarrow> Inl e
           | Inr anomalies \<Rightarrow>
               if anomalies \<noteq> []
               then Inr (''I've identified '' @ show_nat (length anomalies)
                         @ '' potential issues in your data: ''
                         @ join ''; '' (map description (take 3 anomalies))
                         @ ''. These anomalies could indicate measurement errors, formation changes, or drilling challenges that need attention.'')
               else Inr ''Your data appears consistent without obvious anomalies. Common drilling challenges include: formation pressure changes, wellbore instability in shales, lost circulation in fractured formations, and bit balling in clay-rich zones.'')
      | None \<Rightarrow>
          Inr ''Common drilling challenges include: formation pressure variations, wellbore instability in shales, lost circulation, stuck pipe, and bit performance issues. Upload your data to identify specific challenges in your formation.'')"

definition general_answer :: "uploadedData option \<Rightarrow> string" where
  "general_answer uploaded =
     (case rows_of uploaded of
        Some rs \<Rightarrow>
          ''I have access to your drilling data with '' @ show_nat (length rs)
          @ '' measurement points. I can help analyze rock composition, interpret DT and GR logs, identify formation characteristics, and provide drilling recommendations. What specific aspect would you like to explore?''
      | None \<Rightarrow>
          ''I'm here to help with drilling data analysis including rock composition interpretation, log analysis (DT, GR), formation evaluation, and drilling optimization. Please ask about specific measurements or upload your Excel data for detailed analysis.'')"

definition generateFallbackResponse ::
    "jsval \<Rightarrow> wellData option \<Rightarrow> uploadedData option \<Rightarrow> js_error + string" where
  "generateFallbackResponse msg well uploaded =
     (case call_toLowerCase msg of
        Inl e \<Rightarrow> Inl e
      | Inr lowerMessage \<Rightarrow>
          if js_includes lowerMessage ''depth'' then depth_answer well uploaded
          else if js_includes lowerMessage ''rock composition''
                  \<or> js_includes lowerMessage ''composition''
                  \<or> js_includes lowerMessage ''shale'' \<or> js_includes lowerMessage ''sandstone''
                  \<or> js_includes lowerMessage ''limestone''
                  \<or> js_includes lowerMessage ''dolomite''
          then Inr (composition_answer uploaded)
          else if js_includes lowerMessage ''dt'' \<or> js_includes lowerMessage ''delta time''
          then dt_answer uploaded
          else if js_includes lowerMessage ''gr'' \<or> js_includes lowerMessage ''gamma ray''
          then gr_answer uploaded
          else if js_includes lowerMessage ''analyze'' \<or> js_includes lowerMessage ''analysis''
          then analysis_answer uploaded
          else if js_includes lowerMessage ''recommend'' \<or> js_includes lowerMessage ''suggestion''
                  \<or> js_includes lowerMessage ''advice''
          then Inr (recommendation_answer uploaded)
          else if js_includes lowerMessage ''problem'' \<or> js_includes lowerMessage ''issue''
                  \<or> js_includes lowerMessage ''challenge''
                  \<or> js_includes lowerMessage ''trouble''
          then problem_answer uploaded
          else Inr (general_answer uploaded))"

section \<open>The chat handler (\<open>POST /api/chat\<close>)\<close>

text \<open>
  A request carries the message, the well and the uploaded data. The composition of
  the prompt is not modelled: its outcome, the prompt or the exception it throws, is an
  input, as is the outcome of the call to the language model. The session id and the
  time stamp of the reply and the insert into the chat history are left out.
\<close>

record chat_request =
  chat_message :: jsval
  chat_well :: "wellData option"
  chat_uploaded :: "uploadedData option"

datatype llm_outcome = LlmFailure | LlmCompletion string

record chat_body =
  response :: string
  isAIResponse :: bool
  service_note :: "string option"

text \<open>
  The handler answers with a status and a body, or with the rejection of a request
  without message; \<open>Unanswered\<close> is an exception that leaves the handler: no response is
  written.
\<close>

datatype chat_outcome =
    Answered nat chat_body
  | Refused nat string
  | Unanswered js_error

text \<open>The outer \<open>catch\<close>: the fallback once more, with the note of the degraded service.\<close>

definition chat_catch :: "chat_request \<Rightarrow> chat_outcome" where
  "chat_catch req =
     (case generateFallbackResponse (chat_message req) (chat_well req) (chat_uploaded req) of
        Inl e \<Rightarrow> Unanswered e
      | Inr fallbackResponse \<Rightarrow>
          Answered 200 \<lparr> response = fallbackResponse, isAIResponse = False,
                         service_note = Some ''Service temporarily unavailable'' \<rparr>)"

definition chat :: "chat_request \<Rightarrow> js_error + string \<Rightarrow> llm_outcome \<Rightarrow> chat_outcome" where
  "chat req prompt llm =
     (if \<not> truthy (chat_message req) then Refused 400 ''Message is required''
      else case prompt of
             Inl e \<Rightarrow> chat_catch req
           | Inr context \<Rightarrow>
               (case llm of
                  LlmCompletion answer \<Rightarrow>
                    Answered 200 \<lparr> response = answer, isAIResponse = True, service_note = None \<rparr>
                | LlmFailure \<Rightarrow>
                    (case generateFallbackResponse (chat_message req) (chat_well req)
                            (chat_uploaded req) of
                       Inl e \<Rightarrow> chat_catch req
                     | Inr answer \<Rightarrow>
                         Answered 200 \<lparr> response = answer, isAIResponse = False, service_note = None \<rparr>)))"

text \<open>A request about the depth of a well whose status is \<open>null\<close>, and one without context.\<close>

definition null_status_request :: chat_request where
  "null_status_request =
     \<lparr> chat_message = JStr ''What is the depth?'',
       chat_well = Some \<lparr> well_id = JNum (Fin 1), well_name = JStr ''Well A'',
                          well_depth = JNum (Fin 1500), well_status = JNull \<rparr>,
       chat_uploaded = None \<rparr>"

definition plain_request :: chat_request where
  "plain_request =
     \<lparr> chat_message = JStr ''What is the depth?'', chat_well = None, chat_uploaded = None \<rparr>"

section \<open>Properties of the rounding\<close>

lemma blen_bounds: "0 < n \<Longrightarrow> 2 ^ (blen n - 1) \<le> n \<and> n < 2 ^ blen n"
proof (induction n rule: blen.induct)
  case (1 n)
  show ?case
  proof (cases "n = 1")
    case True
    then show ?thesis by (simp add: blen.simps[of 1] blen.simps[of 0])
  next
    case False
    with "1.prems" have h: "0 < n div 2" by simp
    with "1.IH" "1.prems" have IH: "2 ^ (blen (n div 2) - 1) \<le> n div 2" "n div 2 < 2 ^ blen (n div 2)"
      by auto
    from h have pos: "0 < blen (n div 2)" by (simp add: blen.simps[of "n div 2"])
    have e: "blen n = Suc (blen (n div 2))" using "1.prems" by (simp add: blen.simps[of n])
    have "2 ^ (blen n - 1) = 2 * 2 ^ (blen (n div 2) - 1)"
      using pos e by (cases "blen (n div 2)") simp_all
    also have "\<dots> \<le> 2 * (n div 2)" using IH(1) by simp
    also have "\<dots> \<le> n" by simp
    finally have A: "2 ^ (blen n - 1) \<le> n" .
    have "n < 2 * (n div 2 + 1)" by presburger
    also have "\<dots> \<le> 2 * 2 ^ blen (n div 2)" using IH(2) by simp
    finally have B: "n < 2 ^ blen n" using e by simp
    from A B show ?thesis ..
  qed
qed

lemma int_pow_bounds:
  assumes "0 < (n::int)"
  shows "(2::rat) powi (int (blen n) - 1) \<le> of_int n" "of_int n < (2::rat) powi (int (blen n))"
proof -
  from assms have b: "2 ^ (blen n - 1) \<le> n" "n < 2 ^ blen n"
    using blen_bounds[of n] by auto
  from assms have pos: "0 < blen n"
    by (simp add: blen.simps[of n])
  have "(2::rat) powi (int (blen n) - 1) = of_int (2 ^ (blen n - 1))"
    using pos by (simp add: power_int_def nat_diff_distrib')
  also have "\<dots> \<le> of_int n"
    using b(1) by (simp only: of_int_le_iff)
  finally show "(2::rat) powi (int (blen n) - 1) \<le> of_int n" .
  have "(of_int n :: rat) < of_int (2 ^ blen n)"
    using b(2) by (simp only: of_int_less_iff)
  then show "of_int n < (2::rat) powi (int (blen n))"
    by (simp add: power_int_def)
qed

lemma ilog2_bounds:
  assumes "0 < x"
  shows "2 powi (ilog2 x) \<le> x \<and> x < 2 powi (ilog2 x + 1)"
proof -
  obtain p q where pq: "quotient_of x = (p, q)" by force
  then have q: "0 < q" and x: "x = of_int p / of_int q"
    using quotient_of_denom_pos quotient_of_div by blast+
  with assms have p: "0 < p"
    by (simp add: zero_less_divide_iff)
  define bp where "bp = int (blen p)"
  define bq where "bq = int (blen q)"
  have P: "(2::rat) powi (bp - 1) \<le> of_int p" "of_int p < (2::rat) powi bp"
    using int_pow_bounds[of p] p by (simp_all add: bp_def)
  have Q: "(2::rat) powi (bq - 1) \<le> of_int q" "of_int q < (2::rat) powi bq"
    using int_pow_bounds[of q] q by (simp_all add: bq_def)
  have qpos: "(0::rat) < of_int q" using q by simp
  have up: "x < 2 powi (bp - bq + 1)"
  proof -
    have "of_int p < (2::rat) powi bp" by (rule P)
    also have "\<dots> = 2 powi (bp - bq + 1) * 2 powi (bq - 1)"
      by (simp flip: power_int_add)
    also have "\<dots> \<le> 2 powi (bp - bq + 1) * of_int q"
      using Q(1) by (simp add: mult_left_mono)
    finally show ?thesis using qpos by (simp add: x pos_divide_less_eq)
  qed
  have lo: "2 powi (bp - bq - 1) \<le> x"
  proof -
    have "(2::rat) powi (bp - bq - 1) * of_int q \<le> 2 powi (bp - bq - 1) * 2 powi bq"
      using Q(2) by (simp add: mult_left_mono)
    also have "\<dots> = 2 powi (bp - 1)"
      by (simp flip: power_int_add)
    also have "\<dots> \<le> of_int p" by (rule P)
    finally show ?thesis using qpos by (simp add: x pos_le_divide_eq)
  qed
  show ?thesis
    using up lo by (simp add: ilog2_def pq bp_def bq_def Let_def)
qed

lemma ilog2_eq:
  assumes "2 powi k \<le> x" "x < 2 powi (k + 1)"
  shows "ilog2 x = k"
proof -
  have "(0::rat) < 2 powi k" by simp
  with assms have pos: "0 < x" by linarith
  from ilog2_bounds[OF pos] have b: "2 powi (ilog2 x) \<le> x" "x < 2 powi (ilog2 x + 1)"
    by auto
  have "(2::rat) powi k < 2 powi (ilog2 x + 1)" using assms b by linarith
  then have 1: "k < ilog2 x + 1"
    by (meson linorder_not_le one_le_numeral power_int_increasing)
  have "(2::rat) powi (ilog2 x) < 2 powi (k + 1)" using assms b by linarith
  then have 2: "ilog2 x < k + 1"
    by (meson linorder_not_le one_le_numeral power_int_increasing)
  from 1 2 show ?thesis by linarith
qed

lemma rne_bounds: "\<lfloor>q\<rfloor> \<le> rne q \<and> rne q \<le> \<lfloor>q\<rfloor> + 1"
  by (simp add: rne_def Let_def)

lemma rne_of_int [simp]: "rne (of_int n) = n"
  by (simp add: rne_def)

lemma rne_mono: "q \<le> q' \<Longrightarrow> rne q \<le> rne q'"
proof -
  assume le: "q \<le> q'"
  then have fl: "\<lfloor>q\<rfloor> \<le> \<lfloor>q'\<rfloor>" by (rule floor_mono)
  show ?thesis
  proof (cases "\<lfloor>q\<rfloor> < \<lfloor>q'\<rfloor>")
    case True
    then show ?thesis using rne_bounds[of q] rne_bounds[of q'] by linarith
  next
    case False
    with fl have eq: "\<lfloor>q\<rfloor> = \<lfloor>q'\<rfloor>" by simp
    then show ?thesis using le by (auto simp: rne_def Let_def)
  qed
qed

lemma ilog2_mono: "0 < x \<Longrightarrow> x \<le> y \<Longrightarrow> ilog2 x \<le> ilog2 y"
proof -
  assume x: "0 < x" and le: "x \<le> y"
  then have y: "0 < y" by simp
  from ilog2_bounds[OF x] ilog2_bounds[OF y] le
  have "(2::rat) powi ilog2 x < 2 powi (ilog2 y + 1)" by linarith
  then have "ilog2 x < ilog2 y + 1"
    by (meson linorder_not_le one_le_numeral power_int_increasing)
  then show ?thesis by simp
qed

lemma rnd_pos_expo: "rnd_pos x = of_int (rne (x / 2 powi (expo x - 52))) * 2 powi (expo x - 52)"
  by (simp add: rnd_pos_def expo_def Let_def)

lemma rnd_pos_nonneg: "0 \<le> x \<Longrightarrow> 0 \<le> rnd_pos x"
proof -
  assume "0 \<le> x"
  then have "0 \<le> x / 2 powi (expo x - 52)" by simp
  then have "rne 0 \<le> rne (x / 2 powi (expo x - 52))" by (rule rne_mono)
  then have "0 \<le> rne (x / 2 powi (expo x - 52))" using rne_of_int[of 0] by simp
  then show ?thesis unfolding rnd_pos_expo by simp
qed

lemma rnd_pos_upper:
  assumes "0 < x"
  shows "rnd_pos x \<le> 2 powi (expo x + 1)"
proof -
  let ?u = "(2::rat) powi (expo x - 52)"
  have u: "0 < ?u" by simp
  have "ilog2 x \<le> expo x" by (simp add: expo_def)
  then have "(2::rat) powi (ilog2 x + 1) \<le> 2 powi (expo x + 1)"
    by (intro power_int_increasing) simp_all
  with ilog2_bounds[OF assms] have "x \<le> 2 powi (expo x + 1)" by linarith
  then have "x / ?u \<le> 2 powi (expo x + 1) / ?u" using u by (simp add: divide_right_mono)
  also have "2 powi (expo x + 1) / ?u = (2::rat) powi 53"
    by (simp add: power_int_diff[symmetric] del: power_int_numeral)
  also have "\<dots> = of_int (2 ^ 53)" by simp
  finally have "rne (x / ?u) \<le> rne (of_int (2 ^ 53))" by (rule rne_mono)
  then have "rne (x / ?u) \<le> 2 ^ 53" by (simp only: rne_of_int)
  then have "(of_int (rne (x / ?u)) :: rat) \<le> of_int (2 ^ 53)" by (simp only: of_int_le_iff)
  then have "of_int (rne (x / ?u)) * ?u \<le> of_int (2 ^ 53) * ?u"
    using u by (simp only: mult_le_cancel_right_pos)
  also have "of_int (2 ^ 53) * ?u = 2 powi 53 * ?u" by simp
  also have "\<dots> = 2 powi (53 + (expo x - 52))"
    by (rule power_int_add[symmetric]) simp
  also have "53 + (expo x - 52) = expo x + 1" by simp
  finally show ?thesis unfolding rnd_pos_expo .
qed

lemma rnd_pos_lower:
  assumes "0 < x" "- 1022 \<le> ilog2 x"
  shows "2 powi (expo x) \<le> rnd_pos x"
proof -
  let ?u = "(2::rat) powi (expo x - 52)"
  have u: "0 < ?u" by simp
  have e: "expo x = ilog2 x" using assms(2) by (simp add: expo_def)
  with ilog2_bounds[OF assms(1)] have "2 powi (expo x) \<le> x" by simp
  then have "2 powi (expo x) / ?u \<le> x / ?u" using u by (simp add: divide_right_mono)
  moreover have "2 powi (expo x) / ?u = (2::rat) powi 52"
    by (simp add: power_int_diff[symmetric] del: power_int_numeral)
  moreover have "(2::rat) powi 52 = of_int (2 ^ 52)" by simp
  ultimately have "rne (of_int (2 ^ 52)) \<le> rne (x / ?u)" using rne_mono by metis
  then have "2 ^ 52 \<le> rne (x / ?u)" by (simp only: rne_of_int)
  then have "(of_int (2 ^ 52) :: rat) \<le> of_int (rne (x / ?u))" by (simp only: of_int_le_iff)
  then have le: "of_int (2 ^ 52) * ?u \<le> of_int (rne (x / ?u)) * ?u"
    using u by (simp only: mult_le_cancel_right_pos)
  have "2 powi (expo x) = (2::rat) powi (52 + (expo x - 52))" by simp
  also have "\<dots> = 2 powi 52 * ?u"
    by (rule power_int_add) simp
  also have "\<dots> = of_int (2 ^ 52) * ?u" by simp
  also note le
  finally show ?thesis unfolding rnd_pos_expo .
qed

lemma rnd_pos_mono:
  assumes "0 < x" "x \<le> y"
  shows "rnd_pos x \<le> rnd_pos y"
proof -
  from assms have y: "0 < y" by simp
  have ee: "expo x \<le> expo y" using ilog2_mono[OF assms] by (simp add: expo_def)
  show ?thesis
  proof (cases "expo x = expo y")
    case True
    let ?u = "(2::rat) powi (expo y - 52)"
    have u: "0 < ?u" by simp
    have "x / ?u \<le> y / ?u" using assms(2) u by (simp add: divide_right_mono)
    then have "rne (x / ?u) \<le> rne (y / ?u)" by (rule rne_mono)
    then have "(of_int (rne (x / ?u)) :: rat) \<le> of_int (rne (y / ?u))" by simp
    then show ?thesis unfolding rnd_pos_expo True using u
      by (simp only: mult_le_cancel_right_pos)
  next
    case False
    with ee have lt: "expo x < expo y" by simp
    then have big: "- 1022 \<le> ilog2 y" by (auto simp: expo_def max_def split: if_splits)
    have "rnd_pos x \<le> 2 powi (expo x + 1)" by (rule rnd_pos_upper[OF assms(1)])
    also have "\<dots> \<le> 2 powi (expo y)" using lt by (intro power_int_increasing) simp_all
    also have "\<dots> \<le> rnd_pos y" by (rule rnd_pos_lower[OF y big])
    finally show ?thesis .
  qed
qed

lemma rnd_pos_case: "0 < x \<Longrightarrow> rnd x = (if overflows (rnd_pos x) then PosInf else Fin (rnd_pos x))"
  by (simp add: rnd_def overflows_def Let_def)

lemma rnd_neg_case:
  "x < 0 \<Longrightarrow> rnd x = (if overflows (rnd_pos (- x)) then NegInf else Fin (- rnd_pos (- x)))"
  by (simp add: rnd_def overflows_def Let_def)

lemma overflows_mono: "0 \<le> r \<Longrightarrow> r \<le> r' \<Longrightarrow> overflows r \<Longrightarrow> overflows r'"
  using ilog2_mono[of r r'] by (auto simp: overflows_def)

lemma rnd_mono:
  assumes "x \<le> y"
  shows "num_le (rnd x) (rnd y)"
proof -
  consider (pp) "0 < x" | (nn) "y < 0" | (nz) "x < 0" "y = 0" | (np) "x < 0" "0 < y"
    | (z) "x = 0"
    using assms by linarith
  then show ?thesis
  proof cases
    case pp
    with assms have y: "0 < y" by simp
    have le: "rnd_pos x \<le> rnd_pos y" by (rule rnd_pos_mono[OF pp assms])
    have nn: "0 \<le> rnd_pos x" using pp by (simp add: rnd_pos_nonneg)
    show ?thesis
      using le overflows_mono[OF nn le] by (auto simp: rnd_pos_case[OF pp] rnd_pos_case[OF y])
  next
    case nn
    with assms have x: "x < 0" by simp
    have le: "rnd_pos (- y) \<le> rnd_pos (- x)"
      by (rule rnd_pos_mono) (use nn assms in auto)
    have n0: "0 \<le> rnd_pos (- y)" using nn by (simp add: rnd_pos_nonneg)
    show ?thesis
      using le overflows_mono[OF n0 le] by (auto simp: rnd_neg_case[OF x] rnd_neg_case[OF nn])
  next
    case nz
    have "0 \<le> rnd_pos (- x)" using nz by (simp add: rnd_pos_nonneg)
    moreover have "rnd y = Fin 0" using nz by (simp add: rnd_def)
    ultimately show ?thesis by (auto simp: rnd_neg_case[OF nz(1)])
  next
    case np
    have "0 \<le> rnd_pos (- x)" "0 \<le> rnd_pos y" using np by (simp_all add: rnd_pos_nonneg)
    then show ?thesis by (auto simp: rnd_neg_case[OF np(1)] rnd_pos_case[OF np(2)])
  next
    case z
    show ?thesis
    proof (cases "y = 0")
      case True
      with z show ?thesis by (simp add: rnd_def)
    next
      case False
      with z assms have y: "0 < y" by simp
      have "0 \<le> rnd_pos y" using y by (simp add: rnd_pos_nonneg)
      moreover have "rnd x = Fin 0" using z by (simp add: rnd_def)
      ultimately show ?thesis by (auto simp: rnd_pos_case[OF y])
    qed
  qed
qed

lemma rnd_not_NaN [simp]: "rnd x \<noteq> NaN"
  by (simp add: rnd_def Let_def)

lemma rnd_consts:
  "rnd 0 = Fin 0" "rnd 1 = Fin 1" "rnd 2 = Fin 2" "rnd 3 = Fin 3" "rnd 4 = Fin 4"
  "rnd 5 = Fin 5" "rnd 6 = Fin 6" "rnd 7 = Fin 7" "rnd 64 = Fin 64" "rnd 128 = Fin 128"
  "rnd (- 36) = Fin (- 36)" "rnd (- 93) = Fin (- 93)" "rnd (- 100) = Fin (- 100)"
  "rnd (- 15 - 2 powi (- 46)) = Fin (- 15 - 2 powi (- 46))"
  by code_simp+

section \<open>The order of numbers\<close>

lemma js_lt_trans: "js_lt a b \<Longrightarrow> js_lt b c \<Longrightarrow> js_lt a c"
  by (cases a; cases b; cases c) auto

lemma js_lt_irrefl [simp]: "\<not> js_lt a a"
  by (cases a) auto

lemma js_lt_total: "a \<noteq> NaN \<Longrightarrow> b \<noteq> NaN \<Longrightarrow> a = b \<or> js_lt a b \<or> js_lt b a"
  by (cases a; cases b) auto

lemma js_le_lt_trans: "\<not> js_lt b a \<Longrightarrow> js_lt b c \<Longrightarrow> a \<noteq> NaN \<Longrightarrow> js_lt a c"
  by (cases a; cases b; cases c) auto

lemma js_le_trans:
  "\<not> js_lt b a \<Longrightarrow> \<not> js_lt c b \<Longrightarrow> a \<noteq> NaN \<Longrightarrow> b \<noteq> NaN \<Longrightarrow> c \<noteq> NaN \<Longrightarrow> \<not> js_lt c a"
  by (cases a; cases b; cases c) auto

lemma fold_pairs_last_max:
  assumes "\<forall>p \<in> set (p0 # ps). snd p \<noteq> NaN"
  shows "\<exists>xs ys. p0 # ps = xs @ foldl pick_pair p0 ps # ys
           \<and> (\<forall>p \<in> set xs. \<not> js_gt (snd p) (snd (foldl pick_pair p0 ps)))
           \<and> (\<forall>p \<in> set ys. js_lt (snd p) (snd (foldl pick_pair p0 ps)))"
  using assms
proof (induction ps rule: rev_induct)
  case Nil
  show ?case by (rule exI[of _ "[]"], rule exI[of _ "[]"]) simp
next
  case (snoc q qs)
  let ?m = "foldl pick_pair p0 qs"
  from snoc obtain xs ys where d: "p0 # qs = xs @ ?m # ys"
    and lo: "\<forall>p \<in> set xs. \<not> js_gt (snd p) (snd ?m)"
    and hi: "\<forall>p \<in> set ys. js_lt (snd p) (snd ?m)"
    by auto
  have mem: "?m \<in> set (p0 # qs)" by (subst d) simp
  from snoc.prems mem have mn: "snd ?m \<noteq> NaN" by auto
  from snoc.prems have qn: "snd q \<noteq> NaN" by simp
  show ?case
  proof (cases "js_gt (snd ?m) (snd q)")
    case True
    then have e: "foldl pick_pair p0 (qs @ [q]) = ?m" by (simp add: pick_pair_def)
    have "p0 # qs @ [q] = xs @ ?m # (ys @ [q])" using d by simp
    moreover have "\<forall>p \<in> set (ys @ [q]). js_lt (snd p) (snd ?m)"
      using hi True by (auto simp: js_gt_def)
    ultimately show ?thesis using lo unfolding e by blast
  next
    case False
    then have e: "foldl pick_pair p0 (qs @ [q]) = q" by (simp add: pick_pair_def)
    have all: "\<forall>p \<in> set (p0 # qs). \<not> js_gt (snd p) (snd q)"
    proof
      fix p assume p: "p \<in> set (p0 # qs)"
      then have pn: "snd p \<noteq> NaN" using snoc.prems by auto
      from p d have "p \<in> set xs \<or> p = ?m \<or> p \<in> set ys"
        by (metis Un_iff set_ConsD set_append)
      then have "\<not> js_gt (snd p) (snd ?m)"
        using lo hi by (auto simp: js_gt_def dest: js_lt_trans)
      with False show "\<not> js_gt (snd p) (snd q)"
        unfolding js_gt_def using js_le_trans[where a="snd p" and b="snd ?m" and c="snd q"] pn mn qn by blast
    qed
    have "p0 # qs @ [q] = (p0 # qs) @ q # []" by simp
    then show ?thesis using all unfolding e by (metis empty_iff list.set(1))
  qed
qed

lemma find_rev_split:
  assumes "P p" "\<forall>y \<in> set ys. \<not> P y"
  shows "find P (rev (xs @ p # ys)) = Some p"
  using assms by (induction ys rule: rev_induct) auto


section \<open>The row transformer\<close>

lemma or_zero_not_NaN [simp]: "or_zero n \<noteq> NaN"
  by (simp add: or_zero_def num_truthy_def)

lemma rt_get_distinct:
  "distinct (map fst rt) \<Longrightarrow> p \<in> set rt \<Longrightarrow> rt_get rt (fst p) = snd p"
  by (cases p) (simp add: rt_get_def)

lemma fold_keys_pairs:
  assumes "distinct (map fst rt)" "p0 \<in> set rt" "set ps \<subseteq> set rt"
  shows "foldl (pick_greater rt) (fst p0) (map fst ps) = fst (foldl pick_pair p0 ps)
         \<and> foldl pick_pair p0 ps \<in> set rt"
  using assms
proof (induction ps arbitrary: p0)
  case Nil
  then show ?case by simp
next
  case (Cons q qs)
  have q: "q \<in> set rt" using Cons.prems by simp
  have step: "pick_greater rt (fst p0) (fst q) = fst (pick_pair p0 q)"
    using Cons.prems(1,2) q by (simp add: pick_greater_def pick_pair_def rt_get_distinct)
  have mem: "pick_pair p0 q \<in> set rt"
    using Cons.prems(2) q by (simp add: pick_pair_def)
  from Cons.IH[OF Cons.prems(1) mem] Cons.prems(3) step show ?case by simp
qed

lemma reduce_last_max:
  assumes d: "distinct (map fst rt)" and nn: "\<forall>p \<in> set rt. snd p \<noteq> NaN"
    and red: "js_reduce (pick_greater rt) (map fst rt) = Inr k"
  shows "map_option fst (find (\<lambda>p. is_max rt (snd p)) (rev rt)) = Some k"
proof -
  from red obtain p0 ps where rt: "rt = p0 # ps"
    by (cases rt) (auto simp: js_reduce_def)
  let ?m = "foldl pick_pair p0 ps"
  from red rt have k: "k = foldl (pick_greater rt) (fst p0) (map fst ps)"
    by (simp add: js_reduce_def)
  have "p0 \<in> set rt" "set ps \<subseteq> set rt" using rt by auto
  from fold_keys_pairs[OF d this] k have km: "k = fst ?m" by simp
  from nn rt have "\<forall>p \<in> set (p0 # ps). snd p \<noteq> NaN" by simp
  from fold_pairs_last_max[OF this] obtain xs ys where sp: "p0 # ps = xs @ ?m # ys"
    and lo: "\<forall>p \<in> set xs. \<not> js_gt (snd p) (snd ?m)"
    and hi: "\<forall>p \<in> set ys. js_lt (snd p) (snd ?m)"
    by blast
  have mx: "is_max rt (snd ?m)"
    unfolding is_max_def list_all_iff rt sp using lo hi
    by (auto simp: js_gt_def dest: js_lt_trans)
  have nmx: "\<forall>y \<in> set ys. \<not> is_max rt (snd y)"
  proof
    fix y assume "y \<in> set ys"
    with hi have "js_gt (snd ?m) (snd y)" by (simp add: js_gt_def)
    moreover have "?m \<in> set rt" unfolding rt sp by simp
    ultimately show "\<not> is_max rt (snd y)"
      unfolding is_max_def list_all_iff by blast
  qed
  have "find (\<lambda>p. is_max rt (snd p)) (rev (xs @ ?m # ys)) = Some ?m"
    by (rule find_rev_split) (use mx nmx in auto)
  then show ?thesis using km rt sp by simp
qed

lemma processRow_Inr:
  assumes "processRow row i = Inr r"
  shows "js_reduce (pick_greater (rockTypes r)) (map fst (rockTypes r)) = Inr (dominantRockType r)"
    and "\<forall>p \<in> set (rockTypes r). snd p \<noteq> NaN"
    and "rowIndex r = i + 1"
  using assms
  by (auto simp: processRow_def Let_def rockTypes_def js_reduce_def split: sum.splits)

lemma rockTypes_distinct: "distinct (map fst (rockTypes r))"
  by (simp add: rockTypes_def)

lemma js_map_set:
  "js_map f xs i = Inr ys \<Longrightarrow> y \<in> set ys \<Longrightarrow> \<exists>x j. x \<in> set xs \<and> f x j = Inr y"
proof (induction xs arbitrary: i ys)
  case Nil
  then show ?case by simp
next
  case (Cons x xs)
  then show ?case
    by (auto split: sum.splits) blast+
qed


text \<open>
  C1, as the code has it: for every record processed by \<open>processExcelData\<close>, the dominant
  category of the resulting row is the last category, in the order Shale, Sandstone,
  Limestone, Dolomite, Anhydrite, Coal, Salt, whose percentage achieves the maximum of
  the seven percentages. When the maximum is achieved once, that is the category with
  the greatest percentage; when several categories tie, the latest one is chosen.
\<close>

theorem dominant_is_last_maximum:
  assumes "processExcelData data = Inr prs" "r \<in> set prs"
  shows "last_max_category r = Some (dominantRockType r)"
proof -
  from assms have "\<exists>row j. row \<in> set data \<and> processRow row j = Inr r"
    unfolding processExcelData_def by (rule js_map_set)
  then obtain row j where "processRow row j = Inr r" by blast
  from processRow_Inr(1,2)[OF this] show ?thesis
    unfolding last_max_category_def
    using reduce_last_max[OF rockTypes_distinct] by blast
qed

lemma process_tie_row: "processExcelData [tie_row] = Inr [tie_result]"
  by (simp add: processExcelData_def processRow_def tie_row_def tie_result_def getp_def
      or_zero_def or_null_def num_truthy_def js_reduce_def rockTypes_def pick_greater_def
      rt_get_def js_gt_def parseFloat_str_def strip_sign_def scan_decimal_def is_digit_def
      is_ws_def)

theorem dominant_is_last_maximum_witness:
  "processExcelData [tie_row] = Inr [tie_result]
   \<and> SH tie_result = SS tie_result
   \<and> last_max_category tie_result = Some ''Sandstone''"
  using dominant_is_last_maximum[OF process_tie_row, of tie_result] process_tie_row
  by (simp add: tie_result_def)

text \<open>
  C1 as stated fails: on a row of empty cells the seven percentages are all \<open>0\<close>, the
  first category that achieves the maximum is Shale, and the row's dominant category
  is Salt.
\<close>

theorem dominant_first_maximum_counterexample:
  "processExcelData [[]] = Inr [blank_result]
   \<and> dominantRockType blank_result = ''Salt''
   \<and> first_max_category blank_result = Some ''Shale''"
  by (simp add: processExcelData_def processRow_def getp_def or_zero_def or_null_def
      num_truthy_def js_reduce_def rockTypes_def pick_greater_def rt_get_def js_gt_def
      first_max_category_def is_max_def blank_result_def)

lemma map_of_replace_same:
  "map_of (map (\<lambda>p. if fst p = k then (k, v) else p) obj) k =
     (if k \<in> set (map fst obj) then Some v else None)"
  by (induction obj) auto

lemma map_of_replace_other:
  "k' \<noteq> k \<Longrightarrow> map_of (map (\<lambda>p. if fst p = k then (k, v) else p) obj) k' = map_of obj k'"
  by (induction obj) auto

lemma map_of_replace:
  "map_of (map (\<lambda>p. if fst p = k then (k, v) else p) obj) k' =
     (if k' = k then (if k \<in> set (map fst obj) then Some v else None) else map_of obj k')"
  using map_of_replace_same[of k v obj] map_of_replace_other[of k' k v obj] by simp

lemma getp_obj_put: "getp (obj_put obj k v) k' = (if k' = k then v else getp obj k')"
proof (cases "k \<in> set (map fst obj)")
  case True
  then show ?thesis by (simp add: getp_def obj_put_def map_of_replace)
next
  case False
  then have "map_of obj k = None" by (simp add: map_of_eq_None_iff)
  then show ?thesis using False by (auto simp: getp_def obj_put_def map_add_def split: option.splits)
qed

lemma processRow_total: "\<exists>r. processRow row i = Inr r"
  by (simp add: processRow_def Let_def js_reduce_def rockTypes_def)

lemma js_map_total:
  assumes "\<And>x i. \<exists>y. f x i = Inr y"
  shows "\<exists>ys. js_map f xs i = Inr ys \<and> length ys = length xs
           \<and> (\<forall>j<length xs. f (xs ! j) (i + j) = Inr (ys ! j))"
proof (induction xs arbitrary: i)
  case Nil
  then show ?case by simp
next
  case (Cons x xs)
  from assms obtain y where y: "f x i = Inr y" by blast
  from Cons[of "Suc i"] obtain ys where ys: "js_map f xs (Suc i) = Inr ys" "length ys = length xs"
    "\<forall>j<length xs. f (xs ! j) (Suc i + j) = Inr (ys ! j)" by blast
  have "\<forall>j<length (x # xs). f ((x # xs) ! j) (i + j) = Inr ((y # ys) ! j)"
  proof (intro allI impI)
    fix j assume "j < length (x # xs)"
    then show "f ((x # xs) ! j) (i + j) = Inr ((y # ys) ! j)"
      using y ys(3) by (cases j) auto
  qed
  then show ?case using y ys by simp
qed

text \<open>
  C8: \<open>processExcelData\<close> is total. For every sequence of raw records, whatever the cells
  hold, no exception is thrown (the result is \<open>Inr\<close>), and the result has one row per
  record, in the same order and with the same count: row \<open>i\<close> is the record \<open>i\<close>
  processed, with \<open>rowIndex = i + 1\<close>.
\<close>

theorem processExcelData_total:
  "\<exists>prs. processExcelData data = Inr prs \<and> length prs = length data
     \<and> (\<forall>i<length data. processRow (data ! i) i = Inr (prs ! i)
                          \<and> rowIndex (prs ! i) = i + 1)"
proof -
  from js_map_total[of processRow data 0, OF processRow_total]
  obtain prs where r: "processExcelData data = Inr prs" "length prs = length data"
    "\<forall>i<length data. processRow (data ! i) i = Inr (prs ! i)"
    unfolding processExcelData_def by auto
  then have "\<forall>i<length data. rowIndex (prs ! i) = i + 1"
    using processRow_Inr(3) by blast
  with r show ?thesis by blast
qed

theorem processExcelData_total_witness:
  "\<exists>prs. processExcelData [tie_row, []] = Inr prs \<and> length prs = 2
     \<and> processRow tie_row 0 = Inr (prs ! 0) \<and> processRow [] 1 = Inr (prs ! 1)"
proof -
  from processExcelData_total[of "[tie_row, []]"]
  obtain prs where r: "processExcelData [tie_row, []] = Inr prs" "length prs = 2"
    "\<forall>i<2. processRow ([tie_row, []] ! i) i = Inr (prs ! i)"
    by auto
  from r(3)[rule_format, of 0] r(3)[rule_format, of 1]
  have "processRow tie_row 0 = Inr (prs ! 0)" "processRow [] 1 = Inr (prs ! 1)"
    by simp_all
  with r show ?thesis by blast
qed

section \<open>Statistics\<close>

lemma computeStats_DT:
  "avg_DT (averages (computeStats prs)) =
     js_div (foldl (\<lambda>sum row. js_add sum (opt_or_zero (DT row))) (Fin 0) prs)
       (Fin (of_nat (length prs)))"
  by (simp add: computeStats_def)

lemma computeStats_GR:
  "avg_GR (averages (computeStats prs)) =
     js_div (foldl (\<lambda>sum row. js_add sum (opt_or_zero (GR row))) (Fin 0) prs)
       (Fin (of_nat (length prs)))"
  by (simp add: computeStats_def)

lemma foldl_sum_in_order:
  assumes "\<forall>r \<in> set prs. opt_or_zero (g r) = null_as_zero (g r)"
  shows "foldl (\<lambda>sum row. js_add sum (opt_or_zero (g row))) a prs
         = foldl js_add a (map null_as_zero (map g prs))"
  using assms by (induction prs arbitrary: a) simp_all

lemma or_null_value: "or_null n = Some v \<Longrightarrow> or_zero v = v"
  by (auto simp: or_null_def or_zero_def split: if_splits)

lemma processRow_fields:
  assumes "processRow row i = Inr r"
  shows "opt_or_zero (DT r) = null_as_zero (DT r)" "opt_or_zero (GR r) = null_as_zero (GR r)"
  using assms
  by (auto simp: processRow_def Let_def js_reduce_def rockTypes_def opt_or_zero_def
      null_as_zero_def or_null_value split: sum.splits option.splits)

text \<open>
  C5: for the rows that \<open>processExcelData\<close> returns, \<open>averages.DT\<close> and \<open>averages.GR\<close> are
  the sum over all rows of the row's \<open>DT\<close> (\<open>GR\<close>) with \<open>null\<close> replaced by \<open>0\<close>, divided by
  the number of rows, not by the number of values that are not \<open>null\<close>. Three rows
  with \<open>DT = 80, 85, 90\<close> have the average \<open>85\<close> exactly (the witness).
\<close>

theorem averages_over_all_rows:
  assumes "processExcelData data = Inr prs"
  shows "avg_DT (averages (computeStats prs)) = mean_over_all_rows (map DT prs)
       \<and> avg_GR (averages (computeStats prs)) = mean_over_all_rows (map GR prs)"
proof -
  have "\<forall>r \<in> set prs. opt_or_zero (DT r) = null_as_zero (DT r)
                       \<and> opt_or_zero (GR r) = null_as_zero (GR r)"
  proof
    fix r assume "r \<in> set prs"
    with assms have "\<exists>row j. row \<in> set data \<and> processRow row j = Inr r"
      unfolding processExcelData_def by (rule js_map_set)
    then show "opt_or_zero (DT r) = null_as_zero (DT r)
               \<and> opt_or_zero (GR r) = null_as_zero (GR r)"
      using processRow_fields by blast
  qed
  then show ?thesis
    by (simp add: computeStats_DT computeStats_GR mean_over_all_rows_def sum_in_order_def
        foldl_sum_in_order)
qed

lemma process_three_rows: "processExcelData three_rows = Inr three_results"
  by (simp add: processExcelData_def processRow_def three_rows_def three_results_def
      blank_result_def getp_def or_zero_def or_null_def num_truthy_def js_reduce_def
      rockTypes_def pick_greater_def rt_get_def js_gt_def)

lemma mean_three_results:
  "mean_over_all_rows (map DT three_results) = Fin 85"
  "mean_over_all_rows (map GR three_results) = Fin 50"
  by code_simp+

theorem averages_over_all_rows_witness:
  "processExcelData three_rows = Inr three_results
   \<and> map DT three_results = [Some (Fin 80), Some (Fin 85), Some (Fin 90)]
   \<and> avg_DT (averages (computeStats three_results)) = Fin 85
   \<and> avg_GR (averages (computeStats three_results)) = Fin 50"
proof -
  have "map DT three_results = [Some (Fin 80), Some (Fin 85), Some (Fin 90)]"
    by (simp add: three_results_def blank_result_def)
  with averages_over_all_rows[OF process_three_rows] process_three_rows mean_three_results
  show ?thesis by (simp only: simp_thms)
qed

text \<open>
  C9: when the \<open>DEPTH\<close>, \<open>DT\<close> or \<open>GR\<close> cell of a record holds the number \<open>0\<close>, the field
  of the processed row is \<open>null\<close>, not \<open>0\<close>: the row is the one obtained from a \<open>null\<close>
  cell, it does not count for the depth range of any data set it belongs to, and it
  adds \<open>0\<close> to the sum of the average. A category-percentage cell that holds \<open>0\<close> stays
  \<open>0\<close>.
\<close>

theorem zero_cell_becomes_null:
  assumes "processRow row i = Inr r"
  shows "(getp row ''DEPTH'' = JNum (Fin 0) \<longrightarrow>
            DEPTH r = None \<and> processRow (obj_put row ''DEPTH'' JNull) i = Inr r
            \<and> depthRange (computeStats (xs @ r # ys)) = depthRange (computeStats (xs @ ys)))
       \<and> (getp row ''DT'' = JNum (Fin 0) \<longrightarrow>
            DT r = None \<and> processRow (obj_put row ''DT'' JNull) i = Inr r
            \<and> opt_or_zero (DT r) = Fin 0)
       \<and> (getp row ''GR'' = JNum (Fin 0) \<longrightarrow>
            GR r = None \<and> processRow (obj_put row ''GR'' JNull) i = Inr r
            \<and> opt_or_zero (GR r) = Fin 0)
       \<and> (getp row ''%SH'' = JNum (Fin 0) \<longrightarrow> SH r = Fin 0)
       \<and> (getp row ''%SS'' = JNum (Fin 0) \<longrightarrow> SS r = Fin 0)
       \<and> (getp row ''%LS'' = JNum (Fin 0) \<longrightarrow> LS r = Fin 0)
       \<and> (getp row ''%DOL'' = JNum (Fin 0) \<longrightarrow> DOL r = Fin 0)
       \<and> (getp row ''%ANH'' = JNum (Fin 0) \<longrightarrow> ANH r = Fin 0)
       \<and> (getp row ''%Coal'' = JNum (Fin 0) \<longrightarrow> Coal r = Fin 0)
       \<and> (getp row ''%Salt'' = JNum (Fin 0) \<longrightarrow> Salt r = Fin 0)"
proof -
  have depth: "getp row ''DEPTH'' = JNum (Fin 0) \<Longrightarrow>
      DEPTH r = None \<and> processRow (obj_put row ''DEPTH'' JNull) i = Inr r"
    using assms
    by (auto simp: processRow_def Let_def js_reduce_def rockTypes_def getp_obj_put or_null_def
        num_truthy_def split: sum.splits)
  have dt: "getp row ''DT'' = JNum (Fin 0) \<Longrightarrow>
      DT r = None \<and> processRow (obj_put row ''DT'' JNull) i = Inr r"
    using assms
    by (auto simp: processRow_def Let_def js_reduce_def rockTypes_def getp_obj_put or_null_def
        num_truthy_def split: sum.splits)
  have gr: "getp row ''GR'' = JNum (Fin 0) \<Longrightarrow>
      GR r = None \<and> processRow (obj_put row ''GR'' JNull) i = Inr r"
    using assms
    by (auto simp: processRow_def Let_def js_reduce_def rockTypes_def getp_obj_put or_null_def
        num_truthy_def split: sum.splits)
  have range: "DEPTH r = None \<Longrightarrow>
      depthRange (computeStats (xs @ r # ys)) = depthRange (computeStats (xs @ ys))"
    by (simp add: computeStats_def non_null_def)
  have pct: "SH r = or_zero (parseFloat (getp row ''%SH''))"
    "SS r = or_zero (parseFloat (getp row ''%SS''))"
    "LS r = or_zero (parseFloat (getp row ''%LS''))"
    "DOL r = or_zero (parseFloat (getp row ''%DOL''))"
    "ANH r = or_zero (parseFloat (getp row ''%ANH''))"
    "Coal r = or_zero (parseFloat (getp row ''%Coal''))"
    "Salt r = or_zero (parseFloat (getp row ''%Salt''))"
    using assms
    by (auto simp: processRow_def Let_def js_reduce_def rockTypes_def split: sum.splits)
  show ?thesis
    using depth dt gr range
    by (auto simp: pct or_zero_def opt_or_zero_def)
qed

lemma process_zero_row: "processRow zero_row 0 = Inr blank_result"
  by (simp add: processRow_def zero_row_def blank_result_def getp_def or_zero_def
      or_null_def num_truthy_def js_reduce_def rockTypes_def pick_greater_def rt_get_def
      js_gt_def)

theorem zero_cell_becomes_null_witness:
  "processRow zero_row 0 = Inr blank_result
   \<and> getp zero_row ''DEPTH'' = JNum (Fin 0) \<and> DEPTH blank_result = None
   \<and> getp zero_row ''DT'' = JNum (Fin 0) \<and> DT blank_result = None
   \<and> getp zero_row ''GR'' = JNum (Fin 0) \<and> GR blank_result = None
   \<and> getp zero_row ''%SH'' = JNum (Fin 0) \<and> SH blank_result = Fin 0
   \<and> processRow (obj_put zero_row ''DEPTH'' JNull) 0 = Inr blank_result"
proof -
  have cells: "getp zero_row ''DEPTH'' = JNum (Fin 0)" "getp zero_row ''DT'' = JNum (Fin 0)"
    "getp zero_row ''GR'' = JNum (Fin 0)" "getp zero_row ''%SH'' = JNum (Fin 0)"
    by (simp_all add: zero_row_def getp_def)
  from zero_cell_becomes_null[OF process_zero_row, of "[]" "[]"] cells process_zero_row
  show ?thesis by simp
qed

section \<open>Anomaly detection\<close>

lemma num_le_FinD: "num_le (Fin a) x \<Longrightarrow> num_le x (Fin b) \<Longrightarrow> \<exists>q. x = Fin q \<and> a \<le> q \<and> q \<le> b"
  by (cases x) auto

lemma num_le_upper: "num_le x (Fin b) \<Longrightarrow> x = NegInf \<or> (\<exists>q. x = Fin q \<and> q \<le> b)"
  by (cases x) auto

lemma js_add_Fin: "js_add a b = Fin s \<Longrightarrow> \<exists>x y. a = Fin x \<and> b = Fin y \<and> rnd (x + y) = Fin s"
  by (cases a; cases b) auto

lemma foldl_add_Fin:
  "foldl js_add a xs = Fin s \<Longrightarrow> (\<exists>q. a = Fin q) \<and> (\<forall>x \<in> set xs. \<exists>q. x = Fin q)"
proof (induction xs arbitrary: a)
  case Nil
  then show ?case by simp
next
  case (Cons x xs)
  from Cons.prems have "foldl js_add (js_add a x) xs = Fin s" by simp
  from Cons.IH[OF this] obtain q where q: "js_add a x = Fin q"
    and rest: "\<forall>x \<in> set xs. \<exists>q. x = Fin q" by blast
  from js_add_Fin[OF q] rest show ?case by auto
qed

lemma lattice_64_128:
  assumes "64 \<le> y" "y < 128"
  shows "rnd_pos y = of_int (rne (y / 2 powi (- 46))) * 2 powi (- 46)"
proof -
  have "ilog2 y = 6" by (rule ilog2_eq) (use assms in simp_all)
  then show ?thesis by (simp add: rnd_pos_def Let_def)
qed

lemma below_85:
  assumes r: "rnd y = Fin s" and s: "s < 85"
  shows "s \<le> 85 - 2 powi (- 46)"
proof (cases "y < 64")
  case True
  then have "num_le (rnd y) (rnd 64)" by (intro rnd_mono) simp
  then have "s \<le> 64" by (simp add: r rnd_consts)
  then show ?thesis by simp
next
  case False
  then have lo: "64 \<le> y" by simp
  have hi: "y < 128"
  proof (rule ccontr)
    assume "\<not> y < 128"
    then have "num_le (rnd 128) (rnd y)" by (intro rnd_mono) simp
    then show False using s by (simp add: r rnd_consts)
  qed
  from lo have pos: "0 < y" by simp
  from r have sp: "s = rnd_pos y"
    by (simp add: rnd_pos_case[OF pos] split: if_splits)
  define k where "k = rne (y / 2 powi (- 46))"
  have sk: "s = of_int k * 2 powi (- 46)"
    unfolding sp k_def by (rule lattice_64_128[OF lo hi])
  have "of_int k * 2 powi (- 46) < (85::rat)" using s sk by simp
  then have "(of_int k :: rat) < 85 * 2 ^ 46"
    by (simp add: power_int_minus field_simps)
  then have "(of_int k :: rat) < of_int (85 * 2 ^ 46)" by simp
  then have "k < 85 * 2 ^ 46" by (simp only: of_int_less_iff)
  then have "k \<le> 85 * 2 ^ 46 - 1" by simp
  then have "(of_int k :: rat) \<le> of_int (85 * 2 ^ 46 - 1)" by (simp only: of_int_le_iff)
  then have "(of_int k :: rat) * 2 powi (- 46) \<le> of_int (85 * 2 ^ 46 - 1) * 2 powi (- 46)"
    by (intro mult_right_mono) simp_all
  also have "\<dots> = 85 - 2 powi (- 46)"
    by (simp add: power_int_minus field_simps)
  finally show ?thesis using sk by simp
qed

lemma flagged_below_85:
  assumes r: "rnd y = Fin s" and s: "s < 85"
  shows "js_gt (js_abs (js_sub (Fin s) (Fin 100))) (Fin 15)"
proof -
  have "s - 100 \<le> - 15 - 2 powi (- 46)" using below_85[OF r s] by simp
  then have "num_le (rnd (s - 100)) (rnd (- 15 - 2 powi (- 46)))" by (rule rnd_mono)
  then have "num_le (rnd (s - 100)) (Fin (- 15 - 2 powi (- 46)))" by (simp only: rnd_consts)
  from num_le_upper[OF this] have "js_gt (js_abs (rnd (s - 100))) (Fin 15)"
  proof
    assume "rnd (s - 100) = NegInf"
    then show ?thesis by (simp add: js_gt_def)
  next
    assume "\<exists>q. rnd (s - 100) = Fin q \<and> q \<le> - 15 - 2 powi (- 46)"
    then obtain q where q: "rnd (s - 100) = Fin q" "q \<le> - 15 - 2 powi (- 46)" by blast
    have "(0::rat) < 2 powi (- 46)" by simp
    with q(2) have "q < - 15" by linarith
    then show ?thesis by (simp add: q js_gt_def)
  qed
  then show ?thesis by (simp add: js_sub_def)
qed

lemma entry_value:
  "js_or (js_or JUndef (json_num v)) (JNum (Fin 0)) = JNum (fin_or_zero v)"
  by (cases v) (auto simp: js_or_def json_num_def fin_or_zero_def num_truthy_def)

lemma js_plus_nums: "js_plus (JNum a) (JNum b) = JNum (js_add a b)"
  by (simp add: js_plus_def)

lemma totalComposition_json:
  "totalComposition (row_json r) =
     JNum (foldl js_add (Fin 0)
             (map fin_or_zero [SH r, SS r, LS r, DOL r, ANH r, Coal r, Salt r]))"
  by (simp add: totalComposition_def row_json_def getp_def entry_value js_plus_nums)

lemma totalComposition_finite:
  assumes "pct_sum r = Fin s"
  shows "totalComposition (row_json r) = JNum (Fin s)"
proof -
  from assms have "\<forall>x \<in> set [SH r, SS r, LS r, DOL r, ANH r, Coal r, Salt r]. \<exists>q. x = Fin q"
    unfolding pct_sum_def sum_in_order_def by (rule foldl_add_Fin[THEN conjunct2])
  then have "map fin_or_zero [SH r, SS r, LS r, DOL r, ANH r, Coal r, Salt r]
             = [SH r, SS r, LS r, DOL r, ANH r, Coal r, Salt r]"
    by (auto simp: fin_or_zero_def)
  with assms show ?thesis
    by (simp only: totalComposition_json pct_sum_def sum_in_order_def)
qed

lemma pct_sum_rounded: "pct_sum r = Fin s \<Longrightarrow> \<exists>y. rnd y = Fin s"
  by (auto simp: pct_sum_def sum_in_order_def dest: js_add_Fin)

lemma composition_flag:
  assumes "pct_sum r = Fin s" "s < 85"
  shows "\<exists>a as. row_anomalies (row_json r) = Inr (a # as) \<and> type a = ''composition_error''"
proof -
  from pct_sum_rounded[OF assms(1)] obtain y where "rnd y = Fin s" by blast
  from flagged_below_85[OF this assms(2)] totalComposition_finite[OF assms(1)]
  show ?thesis
    by (simp add: row_anomalies_def composition_anomaly_def call_toFixed_def)
qed

lemma row_anomalies_json: "\<exists>as. row_anomalies (row_json r) = Inr as"
  by (simp add: row_anomalies_def composition_anomaly_def call_toFixed_def
      totalComposition_json)

lemma all_anomalies_json: "\<exists>as. all_anomalies (map row_json prs) = Inr as"
proof (induction prs)
  case Nil
  then show ?case by simp
next
  case (Cons r prs)
  with row_anomalies_json[of r] show ?case by auto
qed

lemma detect_first_row:
  assumes "row_anomalies (row_json r) = Inr (a # as)"
  shows "\<exists>bs. detectDataAnomalies (Some (map row_json (r # prs))) = Inr (a # bs)
              \<and> length (a # bs) \<le> 5"
proof -
  from all_anomalies_json[of prs] obtain cs where "all_anomalies (map row_json prs) = Inr cs"
    by blast
  with assms show ?thesis
    by (simp add: detectDataAnomalies_def)
qed

lemma cell_ok_value: "cell_ok v \<Longrightarrow> \<exists>a. or_zero (parseFloat v) = Fin a \<and> 0 \<le> a \<and> a \<le> 1"
proof (cases v)
  case (JNum n)
  assume "cell_ok v"
  with JNum show ?thesis
    by (cases n) (auto simp: cell_ok_def present_def js_gt_def or_zero_def num_truthy_def)
qed (auto simp: cell_ok_def present_def or_zero_def num_truthy_def)

lemma percent_errors_Nil:
  "percent_errors row n = [] \<Longrightarrow> col \<in> set percentageColumns \<Longrightarrow> cell_ok (getp row col)"
  by (auto simp: percent_errors_def cell_ok_def Let_def split: if_splits)

lemma validate_rows_Nil:
  "validate_rows rs i = Inr [] \<Longrightarrow> row \<in> set rs \<Longrightarrow> \<exists>j. row_errors row j = Inr []"
proof (induction rs arbitrary: i)
  case Nil
  then show ?case by simp
next
  case (Cons x xs)
  then show ?case by (auto split: sum.splits)
qed

lemma row_errors_Nil: "row_errors row j = Inr [] \<Longrightarrow> percent_errors row (j + 1) = []"
  by (auto simp: row_errors_def Let_def split: sum.splits)

lemma valid_rows:
  assumes "validateExcelStructure data = Inr v" "isValid v"
  shows "data \<noteq> []" "validate_rows data 0 = Inr []"
  using assms by (auto simp: validateExcelStructure_def split: list.splits sum.splits)

lemma valid_cells:
  assumes "validateExcelStructure data = Inr v" "isValid v" "row \<in> set data"
    "col \<in> set percentageColumns"
  shows "cell_ok (getp row col)"
proof -
  from validate_rows_Nil[OF valid_rows(2)[OF assms(1,2)] assms(3)]
  obtain j where "row_errors row j = Inr []" by blast
  from percent_errors_Nil[OF row_errors_Nil[OF this] assms(4)] show ?thesis .
qed

lemma add_bounded:
  assumes "0 \<le> p" "p \<le> of_nat k" "0 \<le> a" "a \<le> 1" "k < 7"
  shows "\<exists>q. js_add (Fin p) (Fin a) = Fin q \<and> 0 \<le> q \<and> q \<le> of_nat (Suc k)"
proof -
  have lo: "num_le (rnd 0) (rnd (p + a))" by (rule rnd_mono) (use assms in simp)
  have "p + a \<le> of_nat (Suc k)" using assms by simp
  then have hi: "num_le (rnd (p + a)) (rnd (of_nat (Suc k)))" by (rule rnd_mono)
  from assms(5) have "k \<in> {0, 1, 2, 3, 4, 5, 6}" by auto
  then have "rnd (of_nat (Suc k)) = Fin (of_nat (Suc k))"
    by (auto simp: rnd_consts)
  with lo hi have "num_le (Fin 0) (rnd (p + a))" "num_le (rnd (p + a)) (Fin (of_nat (Suc k)))"
    by (simp_all add: rnd_consts)
  from num_le_FinD[OF this] show ?thesis by simp
qed

lemma pct_sum_bounded:
  assumes "SH r = Fin a1" "SS r = Fin a2" "LS r = Fin a3" "DOL r = Fin a4" "ANH r = Fin a5"
    "Coal r = Fin a6" "Salt r = Fin a7"
    and "0 \<le> a1 \<and> a1 \<le> 1" "0 \<le> a2 \<and> a2 \<le> 1" "0 \<le> a3 \<and> a3 \<le> 1" "0 \<le> a4 \<and> a4 \<le> 1"
    "0 \<le> a5 \<and> a5 \<le> 1" "0 \<le> a6 \<and> a6 \<le> 1" "0 \<le> a7 \<and> a7 \<le> 1"
  shows "\<exists>s. pct_sum r = Fin s \<and> s \<le> 7"
proof -
  from add_bounded[of 0 0 a1] assms obtain q1
    where q1: "js_add (Fin 0) (Fin a1) = Fin q1" "0 \<le> q1" "q1 \<le> of_nat 1" by auto
  from add_bounded[OF q1(2,3), of a2] assms obtain q2
    where q2: "js_add (Fin q1) (Fin a2) = Fin q2" "0 \<le> q2" "q2 \<le> of_nat 2" by auto
  from add_bounded[OF q2(2,3), of a3] assms obtain q3
    where q3: "js_add (Fin q2) (Fin a3) = Fin q3" "0 \<le> q3" "q3 \<le> of_nat 3"
    by (auto simp: numeral_3_eq_3)
  from add_bounded[OF q3(2,3), of a4] assms obtain q4
    where q4: "js_add (Fin q3) (Fin a4) = Fin q4" "0 \<le> q4" "q4 \<le> of_nat 4"
    by (auto simp: eval_nat_numeral)
  from add_bounded[OF q4(2,3), of a5] assms obtain q5
    where q5: "js_add (Fin q4) (Fin a5) = Fin q5" "0 \<le> q5" "q5 \<le> of_nat 5"
    by (auto simp: eval_nat_numeral)
  from add_bounded[OF q5(2,3), of a6] assms obtain q6
    where q6: "js_add (Fin q5) (Fin a6) = Fin q6" "0 \<le> q6" "q6 \<le> of_nat 6"
    by (auto simp: eval_nat_numeral)
  from add_bounded[OF q6(2,3), of a7] assms obtain q7
    where q7: "js_add (Fin q6) (Fin a7) = Fin q7" "0 \<le> q7" "q7 \<le> of_nat 7"
    by (auto simp: eval_nat_numeral)
  have "pct_sum r = Fin q7"
    unfolding pct_sum_def sum_in_order_def
    by (simp only: assms(1-7) foldl.simps q1 q2 q3 q4 q5 q6 q7)
  with q7(3) show ?thesis by simp
qed

lemma processRow_pcts:
  assumes "processRow row i = Inr r"
  shows "SH r = or_zero (parseFloat (getp row ''%SH''))"
    "SS r = or_zero (parseFloat (getp row ''%SS''))"
    "LS r = or_zero (parseFloat (getp row ''%LS''))"
    "DOL r = or_zero (parseFloat (getp row ''%DOL''))"
    "ANH r = or_zero (parseFloat (getp row ''%ANH''))"
    "Coal r = or_zero (parseFloat (getp row ''%Coal''))"
    "Salt r = or_zero (parseFloat (getp row ''%Salt''))"
  using assms
  by (auto simp: processRow_def Let_def js_reduce_def rockTypes_def split: sum.splits)

lemma valid_row_sum:
  assumes v: "validateExcelStructure data = Inr v" "isValid v" and row: "row \<in> set data"
    and p: "processRow row i = Inr r"
  shows "\<exists>s. pct_sum r = Fin s \<and> s \<le> 7"
proof -
  have ok: "\<And>col. col \<in> set percentageColumns \<Longrightarrow>
      \<exists>a. or_zero (parseFloat (getp row col)) = Fin a \<and> 0 \<le> a \<and> a \<le> 1"
    using valid_cells[OF v row] cell_ok_value by blast
  from ok[of "''%SH''"] obtain a1 where a1: "SH r = Fin a1" "0 \<le> a1 \<and> a1 \<le> 1"
    by (auto simp: percentageColumns_def processRow_pcts[OF p])
  from ok[of "''%SS''"] obtain a2 where a2: "SS r = Fin a2" "0 \<le> a2 \<and> a2 \<le> 1"
    by (auto simp: percentageColumns_def processRow_pcts[OF p])
  from ok[of "''%LS''"] obtain a3 where a3: "LS r = Fin a3" "0 \<le> a3 \<and> a3 \<le> 1"
    by (auto simp: percentageColumns_def processRow_pcts[OF p])
  from ok[of "''%DOL''"] obtain a4 where a4: "DOL r = Fin a4" "0 \<le> a4 \<and> a4 \<le> 1"
    by (auto simp: percentageColumns_def processRow_pcts[OF p])
  from ok[of "''%ANH''"] obtain a5 where a5: "ANH r = Fin a5" "0 \<le> a5 \<and> a5 \<le> 1"
    by (auto simp: percentageColumns_def processRow_pcts[OF p])
  from ok[of "''%Coal''"] obtain a6 where a6: "Coal r = Fin a6" "0 \<le> a6 \<and> a6 \<le> 1"
    by (auto simp: percentageColumns_def processRow_pcts[OF p])
  from ok[of "''%Salt''"] obtain a7 where a7: "Salt r = Fin a7" "0 \<le> a7 \<and> a7 \<le> 1"
    by (auto simp: percentageColumns_def processRow_pcts[OF p])
  show ?thesis
    by (rule pct_sum_bounded[OF a1(1) a2(1) a3(1) a4(1) a5(1) a6(1) a7(1)
          a1(2) a2(2) a3(2) a4(2) a5(2) a6(2) a7(2)])
qed

lemma js_map_Cons:
  "js_map f (x # xs) i = Inr ys \<Longrightarrow> \<exists>y zs. ys = y # zs \<and> f x i = Inr y"
  by (auto split: sum.splits)

text \<open>
  C10, as the code has it: every row that \<open>processExcelData\<close> returns and whose seven
  percentages sum to a finite number below \<open>85\<close> is flagged by the anomaly detector with
  a \<open>composition_error\<close> (the detector tests \<open>|sum - 100| > 15\<close>, strictly). Every row of a
  data set that the validator accepts is such a row, its percentages being in \<open>[0,1]\<close>;
  so for a valid data set the anomaly list starts with a \<open>composition_error\<close>, is not
  empty and has at most 5 entries.
\<close>

theorem composition_anomaly_below_85:
  assumes "processExcelData data = Inr prs"
  shows "(\<forall>r s. r \<in> set prs \<and> pct_sum r = Fin s \<and> s < 85 \<longrightarrow>
            (\<exists>a as. row_anomalies (row_json r) = Inr (a # as) \<and> type a = ''composition_error''))
       \<and> (\<forall>v. validateExcelStructure data = Inr v \<and> isValid v \<longrightarrow>
            (\<exists>a as. detectDataAnomalies (Some (map row_json prs)) = Inr (a # as)
                     \<and> type a = ''composition_error'' \<and> length (a # as) \<le> 5))"
proof (intro conjI allI impI)
  fix r s assume "r \<in> set prs \<and> pct_sum r = Fin s \<and> s < 85"
  then show "\<exists>a as. row_anomalies (row_json r) = Inr (a # as) \<and> type a = ''composition_error''"
    using composition_flag by blast
next
  fix v assume "validateExcelStructure data = Inr v \<and> isValid v"
  then have v: "validateExcelStructure data = Inr v" "isValid v" by auto
  from valid_rows(1)[OF v] obtain row rest where d: "data = row # rest" by (cases data) auto
  from assms d js_map_Cons[of processRow row rest 0 prs]
  obtain r qs where prs: "prs = r # qs" and p: "processRow row 0 = Inr r"
    unfolding processExcelData_def by blast
  from valid_row_sum[OF v _ p] d obtain s where "pct_sum r = Fin s" "s \<le> 7" by auto
  then have "pct_sum r = Fin s" "s < 85" by simp_all
  from composition_flag[OF this] obtain a as
    where a: "row_anomalies (row_json r) = Inr (a # as)" "type a = ''composition_error''"
    by blast
  from detect_first_row[OF a(1), of qs] a(2) prs
  show "\<exists>a as. detectDataAnomalies (Some (map row_json prs)) = Inr (a # as)
               \<and> type a = ''composition_error'' \<and> length (a # as) \<le> 5"
    by blast
qed

lemma process_valid_data: "processExcelData valid_data = Inr [valid_result]"
  by (simp add: processExcelData_def processRow_def valid_data_def valid_result_def
      blank_result_def getp_def or_zero_def or_null_def num_truthy_def js_reduce_def
      rockTypes_def pick_greater_def rt_get_def js_gt_def)

lemma validate_valid_rows: "validate_rows valid_data 0 = Inr []"
  by code_simp

lemma validate_valid_data:
  "\<exists>v. validateExcelStructure valid_data = Inr v \<and> isValid v"
  using validate_valid_rows
  by (simp add: validateExcelStructure_def valid_data_def missing_errors_def
      requiredColumns_def)

lemma pct_sum_valid_result: "pct_sum valid_result = Fin 1"
  by code_simp

theorem composition_anomaly_below_85_witness:
  "processExcelData valid_data = Inr [valid_result]
   \<and> pct_sum valid_result = Fin 1
   \<and> (\<exists>a as. row_anomalies (row_json valid_result) = Inr (a # as)
              \<and> type a = ''composition_error'')
   \<and> (\<exists>v. validateExcelStructure valid_data = Inr v \<and> isValid v)
   \<and> (\<exists>a as. detectDataAnomalies (Some (map row_json [valid_result])) = Inr (a # as)
              \<and> type a = ''composition_error'' \<and> length (a # as) \<le> 5)"
proof -
  note t = composition_anomaly_below_85[OF process_valid_data]
  from t pct_sum_valid_result
  have a: "\<exists>a as. row_anomalies (row_json valid_result) = Inr (a # as)
                  \<and> type a = ''composition_error''"
    by simp
  from t validate_valid_data
  have b: "\<exists>a as. detectDataAnomalies (Some (map row_json [valid_result])) = Inr (a # as)
                  \<and> type a = ''composition_error'' \<and> length (a # as) \<le> 5"
    by blast
  from a b process_valid_data pct_sum_valid_result validate_valid_data show ?thesis
    by blast
qed

lemma process_boundary_data: "processExcelData boundary_data = Inr [boundary_result]"
  by (simp add: processExcelData_def processRow_def boundary_data_def boundary_result_def
      blank_result_def getp_def or_zero_def or_null_def num_truthy_def js_reduce_def
      rockTypes_def pick_greater_def rt_get_def js_gt_def)

lemma boundary_values:
  "pct_sum boundary_result = Fin 85"
  "detectDataAnomalies (Some [row_json boundary_result]) = Inr []"
  by code_simp+

text \<open>
  C10 as stated fails at the bound: a row whose percentages sum to \<open>85\<close> sums to at most
  \<open>85\<close>, and the detector, which tests \<open>|85 - 100| > 15\<close>, does not flag it.
\<close>

theorem composition_sum_85_counterexample:
  "processExcelData boundary_data = Inr [boundary_result]
   \<and> pct_sum boundary_result = Fin 85
   \<and> detectDataAnomalies (Some [row_json boundary_result]) = Inr []"
  using process_boundary_data boundary_values by simp

section \<open>The validator and the recommendations on example data\<close>

lemma text_rows: "validate_rows text_cell_data 0 = Inl (TypeError ''toFixed is not a function'')"
  by code_simp

text \<open>
  C3 fails on the code: the validator does not return one error string per violation
  for every record set. When a percentage cell holds text, the sum of the row is a
  string concatenation; when that string reads as a number away from \<open>1\<close>, the call
  \<open>rockCompositionSum.toFixed(3)\<close> throws, and the validator returns no error list at
  all. Here \<open>%SH\<close> is the text \<open>1\<close>, the other percentages are \<open>0\<close>, and the sum is the
  string \<open>1000000\<close>.
\<close>

theorem validator_throws_on_text_cell:
  "validateExcelStructure text_cell_data = Inl (TypeError ''toFixed is not a function'')"
  using text_rows by (simp add: validateExcelStructure_def text_cell_data_def)

lemma rows_099:
  "validate_rows sum_099_data 0 =
     Inr [''Row 1: Rock composition percentages should sum to approximately 1.0 (current sum: 0.990)'']"
  by code_simp

lemma rows_101:
  "validate_rows sum_101_data 0 =
     Inr [''Row 1: Rock composition percentages should sum to approximately 1.0 (current sum: 1.010)'']"
  by code_simp

text \<open>
  C4 fails on the code: a row whose percentages sum to \<open>0.99\<close> or to \<open>1.01\<close> gets the
  sum error. In binary64 arithmetic \<open>|0.99 - 1|\<close> and \<open>|1.01 - 1|\<close> are
  \<open>0.010000000000000009\<close>, which is greater than the literal \<open>0.01\<close>.
\<close>

theorem sum_error_at_tolerance:
  "(case validateExcelStructure sum_099_data of
      Inl e \<Rightarrow> []
    | Inr v \<Rightarrow> errors v) =
     [''Row 1: Rock composition percentages should sum to approximately 1.0 (current sum: 0.990)'']
   \<and> (case validateExcelStructure sum_101_data of
      Inl e \<Rightarrow> []
    | Inr v \<Rightarrow> errors v) =
     [''Row 1: Rock composition percentages should sum to approximately 1.0 (current sum: 1.010)'']"
  using rows_099 rows_101
  by (simp add: validateExcelStructure_def sum_099_data_def sum_101_data_def full_row_def
      missing_errors_def requiredColumns_def)

lemma stats_valid_result:
  "computeStats [valid_result] =
     \<lparr> totalRows = 1, depthRange = \<lparr> range_min = Fin 100, range_max = Fin 100 \<rparr>,
       rockTypeDistribution = [(''Shale'', Fin 1)],
       averages = \<lparr> avg_DT = Fin 80, avg_GR = Fin 45 \<rparr> \<rparr>"
  by code_simp

lemma recommend_valid_result:
  "generateDrillingRecommendations
     (Some \<lparr> rows = Some [row_json valid_result],
             statistics = Some (computeStats [valid_result]) \<rparr>) =
   ''Drilling recommendations based on your data: Formation appears relatively uniform - maintain current drilling parameters and monitor for changes.''"
  unfolding stats_valid_result by code_simp

text \<open>
  C2 fails on the code: the recommendations read the keys \<open>SH\<close>, \<open>SS\<close>, \<open>LS\<close> and \<open>DOL\<close> of
  \<open>rockTypeDistribution\<close>, and the upload handler files the rows under \<open>Shale\<close>,
  \<open>Sandstone\<close>, \<open>Limestone\<close> and \<open>Dolomite\<close>. A data set whose only row is dominated by
  Shale (a share of 100%) gets the default text and not the inhibitive-mud advice.
\<close>

theorem shale_advice_missing:
  "processExcelData valid_data = Inr [valid_result]
   \<and> rockTypeDistribution (computeStats [valid_result]) = [(''Shale'', Fin 1)]
   \<and> generateDrillingRecommendations
        (Some \<lparr> rows = Some [row_json valid_result],
                statistics = Some (computeStats [valid_result]) \<rparr>) =
      ''Drilling recommendations based on your data: Formation appears relatively uniform - maintain current drilling parameters and monitor for changes.''"
  using process_valid_data recommend_valid_result stats_valid_result by simp

section \<open>The upload handler before validation\<close>

lemma extensions:
  "to_lower (extname ''wells.csv'') = ''.csv''"
  "to_lower (extname ''WELLS.XLSX'') = ''.xlsx''"
  "to_lower (extname ''wells.xls'') = ''.xls''"
  by code_simp+

text \<open>
  C7, amended: the upload handler rejects without calling \<open>validateExcelStructure\<close>.
  A file whose extension, in lower case, is neither \<open>.xlsx\<close> nor \<open>.xls\<close> gets the
  unsupported-format rejection. A file with such an extension whose first sheet decodes
  to a header row alone gets the no-data-rows rejection, and one whose first sheet
  decodes to no row at all gets the empty-file rejection.
\<close>

theorem upload_rejects_before_validation:
  "(to_lower (extname (originalname f)) \<notin> set [''.xlsx'', ''.xls''] \<longrightarrow>
      upload (Some f) = \<lparr> reply = Rejected unsupported_format, validated = False \<rparr>)
   \<and> (to_lower (extname (originalname f)) \<in> set [''.xlsx'', ''.xls'']
        \<and> content f = Inr wb \<and> SheetNames wb = Some (n # ns) \<longrightarrow>
        (Sheets wb n = Some [headers] \<longrightarrow>
           upload (Some f) = \<lparr> reply = Rejected no_data_rows, validated = False \<rparr>)
        \<and> (Sheets wb n = Some [] \<longrightarrow>
           upload (Some f) = \<lparr> reply = Rejected empty_file, validated = False \<rparr>))"
  by (auto simp: upload_def process_sheet_def)

theorem upload_rejects_before_validation_witness:
  "upload (Some (sheet_file ''wells.csv'' [header_row, [JNum (Fin 100)]])) =
     \<lparr> reply = Rejected unsupported_format, validated = False \<rparr>
   \<and> upload (Some (sheet_file ''WELLS.XLSX'' [header_row])) =
     \<lparr> reply = Rejected no_data_rows, validated = False \<rparr>
   \<and> upload (Some (sheet_file ''wells.xls'' [])) =
     \<lparr> reply = Rejected empty_file, validated = False \<rparr>"
proof -
  have a: "upload (Some (sheet_file ''wells.csv'' [header_row, [JNum (Fin 100)]])) =
     \<lparr> reply = Rejected unsupported_format, validated = False \<rparr>"
    using upload_rejects_before_validation
      [of "sheet_file ''wells.csv'' [header_row, [JNum (Fin 100)]]"]
    by (simp add: sheet_file_def extensions)
  have b: "upload (Some (sheet_file ''WELLS.XLSX'' [header_row])) =
     \<lparr> reply = Rejected no_data_rows, validated = False \<rparr>"
    using upload_rejects_before_validation
      [of "sheet_file ''WELLS.XLSX'' [header_row]"
          "Workbook (Some [''Sheet1'']) [''Sheet1'' \<mapsto> [header_row]]" "''Sheet1''" "[]"
          header_row]
    by (simp add: sheet_file_def extensions)
  have c: "upload (Some (sheet_file ''wells.xls'' [])) =
     \<lparr> reply = Rejected empty_file, validated = False \<rparr>"
    using upload_rejects_before_validation
      [of "sheet_file ''wells.xls'' []"
          "Workbook (Some [''Sheet1'']) [''Sheet1'' \<mapsto> []]" "''Sheet1''" "[]"]
    by (simp add: sheet_file_def extensions)
  from a b c show ?thesis by simp
qed

text \<open>
  C7 as stated fails on a sheet that decodes to no row at all: the handler answers with
  the empty-file rejection, whose details differ from those of the no-data-rows
  rejection.
\<close>

theorem empty_sheet_counterexample:
  "upload (Some (sheet_file ''wells.xlsx'' [])) =
     \<lparr> reply = Rejected empty_file, validated = False \<rparr>
   \<and> details empty_file = Items [''Excel file is empty or contains no data'']
   \<and> details no_data_rows
       = Items [''Excel file must contain at least a header row and one data row'']
   \<and> empty_file \<noteq> no_data_rows"
  by (simp add: upload_def process_sheet_def sheet_file_def extname_def to_lower_def
      empty_file_def no_data_rows_def structure_rejection_def reject_def)

section \<open>The chat handler when the completion fails\<close>

text \<open>
  When the completion fails and \<open>generateFallbackResponse\<close> returns, the handler answers
  with status 200, the fallback text and \<open>isAIResponse = false\<close>.
\<close>

lemma fallback_absorbs_llm_failure:
  assumes "truthy (chat_message req)"
    and "generateFallbackResponse (chat_message req) (chat_well req) (chat_uploaded req)
         = Inr answer"
  shows "chat req (Inr context) LlmFailure =
           Answered 200 \<lparr> response = answer, isAIResponse = False, service_note = None \<rparr>"
  using assms by (simp add: chat_def)

lemma plain_fallback:
  "generateFallbackResponse (chat_message plain_request) (chat_well plain_request)
     (chat_uploaded plain_request) =
   Inr ''Depth information is not available. Please select a well or upload drilling data to see depth analysis.''"
  by (simp add: plain_request_def generateFallbackResponse_def call_toLowerCase_def
      to_lower_def depth_answer_def)

lemma chat_plain_request:
  "chat plain_request (Inr ''prompt'') LlmFailure =
     Answered 200
       \<lparr> response = ''Depth information is not available. Please select a well or upload drilling data to see depth analysis.'',
         isAIResponse = False, service_note = None \<rparr>"
  using fallback_absorbs_llm_failure[OF _ plain_fallback, of "''prompt''"]
  by (simp add: plain_request_def)

text \<open>
  C6 fails on the code: \<open>generateFallbackResponse\<close> can throw, and the outer \<open>catch\<close> of the
  handler calls it again with the same arguments, so the exception leaves the handler
  and no payload is sent. A question about the depth, for a well whose \<open>status\<close> is
  \<open>null\<close>, with the completion failing: the fallback reads \<open>wellData.status.toLowerCase()\<close>
  and throws a \<open>TypeError\<close>, whatever the prompt was.
\<close>

theorem chat_unanswered_when_fallback_throws:
  "chat null_status_request (Inr context) LlmFailure =
     Unanswered (TypeError ''Cannot read properties of null (reading 'toLowerCase')'')"
  by (simp add: chat_def chat_catch_def null_status_request_def generateFallbackResponse_def
      call_toLowerCase_def to_lower_def depth_answer_def)

end
